theory Spec2Isabelle
  imports Main "HOL-Library.Word"
begin

unbundle bit_operations_syntax

section \<open>Data model of \<^verbatim>\<open>src/macos/cpid_macos.c\<close>\<close>

type_synonym byte = "8 word"
type_synonym uint32_t = "32 word"
type_synonym uint64_t = "64 word"

text \<open>
  \<^verbatim>\<open>char serial_number[16]\<close> and \<^verbatim>\<open>uuid_t\<close> (\<^verbatim>\<open>unsigned char[16]\<close>) are arrays of
  exactly 16 bytes: the type of byte lists of length 16.
\<close>

typedef bytes16 = "{bs :: byte list. length bs = 16}"
  by (intro exI [of _ "replicate 16 0"]) simp

definition bytes_of :: "bytes16 \<Rightarrow> byte list" where
  "bytes_of a = Rep_bytes16 a"

text \<open>
  The 16-byte array holding the first 16 bytes of a buffer (\<^verbatim>\<open>memcpy(dst, src, 16)\<close>).
  Every buffer it is applied to has at least 16 bytes; the zero padding only makes the
  function total.
\<close>

definition bytes16_of :: "byte list \<Rightarrow> bytes16" where
  "bytes16_of bs = Abs_bytes16 (take 16 (bs @ replicate 16 0))"

text \<open>Lines 12 to 17: the constants the file defines itself.\<close>

definition KERNEL_TASK_PID :: uint32_t where "KERNEL_TASK_PID = 0"
definition LAUNCHD_PID :: uint32_t where "LAUNCHD_PID = 1"
definition MACOS_SERIAL_NUMBER_BUFFER_SIZE :: nat where "MACOS_SERIAL_NUMBER_BUFFER_SIZE = 16"
definition MACOS_EXPECTED_DIGEST_INPUT_CONTENT_SIZE :: nat where
  "MACOS_EXPECTED_DIGEST_INPUT_CONTENT_SIZE = 88"
definition MAX_MICROS_OFFSET :: uint32_t where "MAX_MICROS_OFFSET = 999999"
definition OPEN_SSL_SUCCESS :: int where "OPEN_SSL_SUCCESS = 1"

text \<open>
  Modelled from the spec: \<^verbatim>\<open>SHA256_BUFFER_SIZE\<close> is defined in \<^verbatim>\<open>../constants.h\<close>, which is
  not among the sources. The spec gives "exactly 32 bytes (SHA-256 width)", and the static
  assertions of lines 45 and 46 place it between 16 and \<^verbatim>\<open>EVP_MAX_MD_SIZE\<close>.
\<close>

definition SHA256_BUFFER_SIZE :: nat where "SHA256_BUFFER_SIZE = 32"

text \<open>OpenSSL's \<^verbatim>\<open>EVP_MAX_MD_SIZE\<close> (64) and the sizes of \<^verbatim>\<open>uuid_t\<close> and \<^verbatim>\<open>uuid_string_t\<close>.\<close>

definition EVP_MAX_MD_SIZE :: nat where "EVP_MAX_MD_SIZE = 64"
definition sizeof_uuid_t :: nat where "sizeof_uuid_t = 16"
definition sizeof_uuid_string_t :: nat where "sizeof_uuid_string_t = 37"

text \<open>
  \<^verbatim>\<open>RETURN_SUCCESS\<close> and \<^verbatim>\<open>RETURN_ERROR\<close> also come from \<^verbatim>\<open>../constants.h\<close>. The code only
  compares return codes with \<^verbatim>\<open>RETURN_SUCCESS\<close>, so they are two distinct values here.
  \<^verbatim>\<open>MAX_PID\<close>, the third constant of that header, is a parameter of every function that
  uses it.
\<close>

datatype return_code = RETURN_SUCCESS | RETURN_ERROR

text \<open>Lines 19 to 32: the packed structures.\<close>

record process_creation_time_t =
  unix_epoch_seconds :: uint64_t
  micros_offset :: uint64_t

record digest_input_content_t =
  serial_number :: bytes16
  hardware_uuid :: bytes16
  kernel_task_creation_time :: process_creation_time_t
  launchd_creation_time :: process_creation_time_t
  process_creation_time :: process_creation_time_t
  pid :: uint64_t

text \<open>
  Lines 38 to 43: the structure behind a handle. The two OpenSSL pointers are addresses
  (\<open>None\<close> is \<^verbatim>\<open>NULL\<close>); the scratch buffer is a byte list, \<^verbatim>\<open>EVP_MAX_MD_SIZE\<close> long
  once allocated.
\<close>

record cpid_struct =
  digest_context :: "nat option"
  sha256 :: "nat option"
  digest_destination_buffer :: "byte list"
  digest_input_content :: digest_input_content_t

subsection \<open>The bytes the hash reads\<close>

text \<open>
  Line 223 hands \<^verbatim>\<open>&library_handle->digest_input_content\<close> with its \<^verbatim>\<open>sizeof\<close> to the hash:
  the bytes of the packed structure (\<^verbatim>\<open>#pragma pack(push, 1)\<close>) in declaration order. A
  \<^verbatim>\<open>uint64_t\<close> lies in memory least significant byte first on the machines macOS runs on.
\<close>

definition bytes_of_uint64 :: "uint64_t \<Rightarrow> byte list" where
  "bytes_of_uint64 v = map (\<lambda>i. ucast (drop_bit (8 * i) v)) [0..<8]"

definition bytes_of_process_creation_time :: "process_creation_time_t \<Rightarrow> byte list" where
  "bytes_of_process_creation_time t =
     bytes_of_uint64 (unix_epoch_seconds t) @ bytes_of_uint64 (micros_offset t)"

definition bytes_of_digest_input_content :: "digest_input_content_t \<Rightarrow> byte list" where
  "bytes_of_digest_input_content c =
     bytes_of (serial_number c) @
     bytes_of (hardware_uuid c) @
     bytes_of_process_creation_time (kernel_task_creation_time c) @
     bytes_of_process_creation_time (launchd_creation_time c) @
     bytes_of_process_creation_time (process_creation_time c) @
     bytes_of_uint64 (pid c)"

section \<open>The world outside the file\<close>

text \<open>
  The C library's allocator, OpenSSL, IOKit, Core Foundation, libuuid and \<^verbatim>\<open>sysctl\<close> are
  not code of this repository. What they hold is the \<open>world\<close>; what they answer on one
  run is the \<open>platform\<close>.
\<close>

record EVP_MD_CTX =
  ctx_md :: "string option"
  ctx_data :: "byte list"

record world =
  handles :: "nat \<rightharpoonup> cpid_struct"
  md_ctxs :: "nat \<rightharpoonup> EVP_MD_CTX"
  mds :: "nat \<rightharpoonup> string"
  next_addr :: nat
  io_objects :: nat
  cf_objects :: nat
  sysctl_calls :: nat

text \<open>The fields of \<^verbatim>\<open>struct kinfo_proc\<close> the file reads: \<^verbatim>\<open>pid_t\<close> and \<^verbatim>\<open>suseconds_t\<close> are
  signed 32-bit, \<^verbatim>\<open>time_t\<close> is signed 64-bit.\<close>

record kinfo_proc =
  p_pid :: "32 word"
  tv_sec :: "64 word"
  tv_usec :: "32 word"

record platform =
  calloc_succeeds :: bool
  md_fetch_succeeds :: "string \<Rightarrow> bool"
  md_ctx_new_succeeds :: bool
  digest_init_succeeds :: bool
  digest_update_succeeds :: bool
  digest_final_succeeds :: bool
  digest_fn :: "string \<Rightarrow> byte list \<Rightarrow> byte list"
  platform_expert_found :: bool
  serial_number_property :: "byte list option"
  registry_root_found :: bool
  uuid_property :: "byte list option"
  uuid_parse :: "byte list \<Rightarrow> bytes16 option"
  sysctl_kern_proc_pid :: "uint32_t \<Rightarrow> int \<times> kinfo_proc"
  uuid_unparse_upper :: bool

text \<open>
  Undefined behaviour of the C program is a value: reading through a pointer to a block
  that is not allocated, and releasing what is not allocated.
\<close>

datatype fault = InvalidPointer | DoubleFree

subsection \<open>\<^verbatim>\<open>calloc\<close> and \<^verbatim>\<open>free\<close>\<close>

definition zero_process_creation_time :: process_creation_time_t where
  "zero_process_creation_time = \<lparr>unix_epoch_seconds = 0, micros_offset = 0\<rparr>"

definition zero_cpid_struct :: cpid_struct where
  "zero_cpid_struct =
     \<lparr>digest_context = None, sha256 = None,
      digest_destination_buffer = replicate EVP_MAX_MD_SIZE 0,
      digest_input_content =
        \<lparr>serial_number = bytes16_of [], hardware_uuid = bytes16_of [],
         kernel_task_creation_time = zero_process_creation_time,
         launchd_creation_time = zero_process_creation_time,
         process_creation_time = zero_process_creation_time,
         pid = 0\<rparr>\<rparr>"

definition calloc_cpid_struct :: "platform \<Rightarrow> world \<Rightarrow> nat option \<times> world" where
  "calloc_cpid_struct P w =
     (if calloc_succeeds P
      then (Some (next_addr w),
            w\<lparr>handles := (handles w)(next_addr w \<mapsto> zero_cpid_struct),
              next_addr := Suc (next_addr w)\<rparr>)
      else (None, w))"

definition free_cpid_struct :: "nat \<Rightarrow> world \<Rightarrow> fault + world" where
  "free_cpid_struct a w =
     (if handles w a = None then Inl DoubleFree
      else Inr (w\<lparr>handles := (handles w)(a := None)\<rparr>))"

subsection \<open>OpenSSL's EVP digest interface\<close>

text \<open>
  As OpenSSL documents it: \<^verbatim>\<open>EVP_MD_fetch\<close> returns an algorithm object or \<^verbatim>\<open>NULL\<close>;
  \<^verbatim>\<open>EVP_MD_CTX_new\<close> returns a fresh context or \<^verbatim>\<open>NULL\<close>; \<^verbatim>\<open>EVP_DigestInit_ex2\<close> sets the
  context up for a new digest of the given algorithm, \<^verbatim>\<open>EVP_DigestUpdate\<close> hashes more
  bytes into it, and \<^verbatim>\<open>EVP_DigestFinal_ex\<close> writes the digest of the bytes hashed so far,
  at most \<^verbatim>\<open>EVP_MAX_MD_SIZE\<close> bytes, to the start of the buffer and reports how many bytes
  it wrote. Each of the three returns 1 for success and 0 for failure;
  \<^verbatim>\<open>EVP_DigestInit_ex2\<close> with a \<^verbatim>\<open>NULL\<close> algorithm on a context that has none returns 0.
\<close>

definition EVP_MD_fetch :: "platform \<Rightarrow> string \<Rightarrow> world \<Rightarrow> nat option \<times> world" where
  "EVP_MD_fetch P algorithm w =
     (if md_fetch_succeeds P algorithm
      then (Some (next_addr w),
            w\<lparr>mds := (mds w)(next_addr w \<mapsto> algorithm), next_addr := Suc (next_addr w)\<rparr>)
      else (None, w))"

definition EVP_MD_CTX_new :: "platform \<Rightarrow> world \<Rightarrow> nat option \<times> world" where
  "EVP_MD_CTX_new P w =
     (if md_ctx_new_succeeds P
      then (Some (next_addr w),
            w\<lparr>md_ctxs := (md_ctxs w)(next_addr w \<mapsto> \<lparr>ctx_md = None, ctx_data = []\<rparr>),
              next_addr := Suc (next_addr w)\<rparr>)
      else (None, w))"

definition EVP_MD_CTX_free :: "nat \<Rightarrow> world \<Rightarrow> fault + world" where
  "EVP_MD_CTX_free c w =
     (if md_ctxs w c = None then Inl DoubleFree
      else Inr (w\<lparr>md_ctxs := (md_ctxs w)(c := None)\<rparr>))"

definition EVP_MD_free :: "nat \<Rightarrow> world \<Rightarrow> fault + world" where
  "EVP_MD_free m w =
     (if mds w m = None then Inl DoubleFree
      else Inr (w\<lparr>mds := (mds w)(m := None)\<rparr>))"

definition EVP_DigestInit_ex2 ::
  "platform \<Rightarrow> nat option \<Rightarrow> nat option \<Rightarrow> world \<Rightarrow> fault + (int \<times> world)" where
  "EVP_DigestInit_ex2 P ctx md w =
     (case ctx of
        None \<Rightarrow> Inl InvalidPointer
      | Some c \<Rightarrow>
          (case md_ctxs w c of
             None \<Rightarrow> Inl InvalidPointer
           | Some st \<Rightarrow>
               (case md of
                  None \<Rightarrow> Inr (0, w)
                | Some m \<Rightarrow>
                    (case mds w m of
                       None \<Rightarrow> Inl InvalidPointer
                     | Some algorithm \<Rightarrow>
                         if digest_init_succeeds P
                         then Inr (1, w\<lparr>md_ctxs := (md_ctxs w)
                                   (c \<mapsto> \<lparr>ctx_md = Some algorithm, ctx_data = []\<rparr>)\<rparr>)
                         else Inr (0, w)))))"

definition EVP_DigestUpdate ::
  "platform \<Rightarrow> nat option \<Rightarrow> byte list \<Rightarrow> world \<Rightarrow> fault + (int \<times> world)" where
  "EVP_DigestUpdate P ctx d w =
     (case ctx of
        Some c \<Rightarrow>
          (case md_ctxs w c of
             Some st \<Rightarrow>
               if digest_update_succeeds P \<and> ctx_md st \<noteq> None
               then Inr (1, w\<lparr>md_ctxs := (md_ctxs w)(c \<mapsto> st\<lparr>ctx_data := ctx_data st @ d\<rparr>)\<rparr>)
               else Inr (0, w)
           | None \<Rightarrow> Inl InvalidPointer)
      | None \<Rightarrow> Inl InvalidPointer)"

definition EVP_DigestFinal_ex ::
  "platform \<Rightarrow> nat option \<Rightarrow> byte list \<Rightarrow> world \<Rightarrow> fault + (int \<times> byte list \<times> nat \<times> world)" where
  "EVP_DigestFinal_ex P ctx buf w =
     (case ctx of
        Some c \<Rightarrow>
          (case md_ctxs w c of
             Some st \<Rightarrow>
               (case ctx_md st of
                  Some algorithm \<Rightarrow>
                    if digest_final_succeeds P
                    then let d = take EVP_MAX_MD_SIZE (digest_fn P algorithm (ctx_data st))
                         in Inr (1, d @ drop (length d) buf, length d,
                                 w\<lparr>md_ctxs := (md_ctxs w)(c \<mapsto> \<lparr>ctx_md = None, ctx_data = []\<rparr>)\<rparr>)
                    else Inr (0, buf, 0, w)
                | None \<Rightarrow> Inr (0, buf, 0, w))
           | None \<Rightarrow> Inl InvalidPointer)
      | None \<Rightarrow> Inl InvalidPointer)"

subsection \<open>IOKit, Core Foundation and \<^verbatim>\<open>sysctl\<close>\<close>

text \<open>
  \<^verbatim>\<open>CFStringGetCString\<close> copies the string and its terminator into the buffer when both fit
  in \<open>bufferSize\<close> bytes, and fails otherwise (the buffer is then left as it was here;
  the file never reads it after a failure).
\<close>

definition CFStringGetCString :: "byte list \<Rightarrow> byte list \<Rightarrow> nat \<Rightarrow> bool \<times> byte list" where
  "CFStringGetCString str buffer bufferSize =
     (if length str < bufferSize
      then (True, str @ [0] @ drop (Suc (length str)) buffer)
      else (False, buffer))"

section \<open>The functions of the file\<close>

text \<open>
  A pointer parameter is an \<open>option\<close>: \<open>None\<close> for \<^verbatim>\<open>NULL\<close>, \<open>Some v\<close> for a pointer to
  an object that now holds \<open>v\<close>; the function returns what the object holds afterwards.
  A handle is the address of its block in \<open>handles\<close>.
\<close>

text \<open>Lines 48 to 71.\<close>

definition cpid_get_serial_number ::
  "platform \<Rightarrow> bytes16 option \<Rightarrow> nat \<Rightarrow> world \<Rightarrow> return_code \<times> bytes16 option \<times> world" where
  "cpid_get_serial_number P serial_number' serial_number_size w =
     (case serial_number' of
        None \<Rightarrow> (RETURN_ERROR, serial_number', w)
      | Some buffer \<Rightarrow>
          if 0 = serial_number_size then (RETURN_ERROR, serial_number', w)
          else if \<not> platform_expert_found P then (RETURN_ERROR, serial_number', w)
          else
            let w1 = w\<lparr>io_objects := Suc (io_objects w)\<rparr>;
                serialNumberAsCFString = serial_number_property P;
                w2 = (if serialNumberAsCFString = None then w1
                      else w1\<lparr>cf_objects := Suc (cf_objects w1)\<rparr>);
                w3 = w2\<lparr>io_objects := io_objects w2 - 1\<rparr>
            in (case serialNumberAsCFString of
                 None \<Rightarrow> (RETURN_ERROR, serial_number', w3)
               | Some str \<Rightarrow>
                   let (get_cstring_succeeded, buffer') =
                         CFStringGetCString str (bytes_of buffer) serial_number_size;
                       w4 = w3\<lparr>cf_objects := cf_objects w3 - 1\<rparr>
                   in if \<not> get_cstring_succeeded
                      then (RETURN_ERROR, Some (bytes16_of buffer'), w4)
                      else (RETURN_SUCCESS, Some (bytes16_of buffer'), w4)))"

text \<open>Lines 73 to 103. \<^verbatim>\<open>uuid_parse\<close> reads the text up to its terminator.\<close>

definition cpid_get_hardware_uuid ::
  "platform \<Rightarrow> bytes16 option \<Rightarrow> world \<Rightarrow> return_code \<times> bytes16 option \<times> world" where
  "cpid_get_hardware_uuid P hardware_uuid' w =
     (case hardware_uuid' of
        None \<Rightarrow> (RETURN_ERROR, hardware_uuid', w)
      | Some old \<Rightarrow>
          let uuid_receive_text_buffer = replicate sizeof_uuid_string_t (0 :: byte)
          in if \<not> registry_root_found P then (RETURN_ERROR, hardware_uuid', w)
          else
            let w1 = w\<lparr>io_objects := Suc (io_objects w)\<rparr>;
                uuidCf = uuid_property P;
                w2 = (if uuidCf = None then w1 else w1\<lparr>cf_objects := Suc (cf_objects w1)\<rparr>);
                w3 = w2\<lparr>io_objects := io_objects w2 - 1\<rparr>
            in (case uuidCf of
                 None \<Rightarrow> (RETURN_ERROR, hardware_uuid', w3)
               | Some str \<Rightarrow>
                   let (get_cstring_succeeded, text_buffer) =
                         CFStringGetCString str uuid_receive_text_buffer sizeof_uuid_string_t;
                       w4 = w3\<lparr>cf_objects := cf_objects w3 - 1\<rparr>
                   in if \<not> get_cstring_succeeded then (RETURN_ERROR, hardware_uuid', w4)
                      else (case uuid_parse P (takeWhile (\<lambda>b. b \<noteq> 0) text_buffer) of
                              None \<Rightarrow> (RETURN_ERROR, hardware_uuid', w4)
                            | Some parsed \<Rightarrow> (RETURN_SUCCESS, Some parsed, w4))))"

text \<open>Lines 105 to 140. Every call of \<^verbatim>\<open>sysctl\<close> is counted in \<open>sysctl_calls\<close>.\<close>

definition cpid_get_process_creation_time ::
  "platform \<Rightarrow> uint32_t \<Rightarrow> uint32_t \<Rightarrow> process_creation_time_t option \<Rightarrow> world \<Rightarrow>
     return_code \<times> process_creation_time_t option \<times> world" where
  "cpid_get_process_creation_time P MAX_PID pid' process_creation_time' w =
     (if pid' > MAX_PID \<or> process_creation_time' = None
      then (RETURN_ERROR, process_creation_time', w)
      else
        let (return_code, process_info) = sysctl_kern_proc_pid P pid';
            w1 = w\<lparr>sysctl_calls := Suc (sysctl_calls w)\<rparr>
        in if 0 \<noteq> return_code then (RETURN_ERROR, process_creation_time', w1)
           else if sint (p_pid process_info) < 0 then (RETURN_ERROR, process_creation_time', w1)
           else
             let returned_pid = p_pid process_info
             in if returned_pid \<noteq> pid' \<or> 0 = tv_sec process_info
                then (RETURN_ERROR, process_creation_time', w1)
                else if sint (tv_sec process_info) < 0 \<or> sint (tv_usec process_info) < 0
                then (RETURN_ERROR, process_creation_time', w1)
                else (RETURN_SUCCESS,
                      Some \<lparr>unix_epoch_seconds = tv_sec process_info,
                            micros_offset = scast (tv_usec process_info)\<rparr>,
                      w1))"

text \<open>Lines 193 to 205.\<close>

definition cpid_finalize :: "nat option \<Rightarrow> world \<Rightarrow> fault + world" where
  "cpid_finalize library_handle w =
     (case library_handle of
        None \<Rightarrow> Inr w
      | Some a \<Rightarrow>
          (case handles w a of
             None \<Rightarrow> Inl InvalidPointer
           | Some s \<Rightarrow>
               (case (case digest_context s of
                        None \<Rightarrow> Inr w
                      | Some c \<Rightarrow> EVP_MD_CTX_free c w) of
                  Inl f \<Rightarrow> Inl f
                | Inr w1 \<Rightarrow>
                    (case (case sha256 s of
                             None \<Rightarrow> Inr w1
                           | Some m \<Rightarrow> EVP_MD_free m w1) of
                       Inl f \<Rightarrow> Inl f
                     | Inr w2 \<Rightarrow> free_cpid_struct a w2))))"

text \<open>
  Lines 150 to 183, the block \<^verbatim>\<open>do { ... } while(0)\<close> of \<^verbatim>\<open>cpid_initialize\<close>: each
  \<^verbatim>\<open>break\<close> leaves with the return code set. \<open>s\<close> is what the new block holds.
\<close>

definition cpid_initialize_block ::
  "platform \<Rightarrow> uint32_t \<Rightarrow> cpid_struct \<Rightarrow> world \<Rightarrow> return_code \<times> cpid_struct \<times> world" where
  "cpid_initialize_block P MAX_PID s w =
     (let (md, w1) = EVP_MD_fetch P ''SHA256'' w;
          s1 = s\<lparr>sha256 := md\<rparr>
      in if md = None then (RETURN_ERROR, s1, w1)
      else
        let (ctx, w2) = EVP_MD_CTX_new P w1;
            s2 = s1\<lparr>digest_context := ctx\<rparr>
        in if ctx = None then (RETURN_ERROR, s2, w2)
        else
          let (rc3, sn, w3) =
                cpid_get_serial_number P (Some (serial_number (digest_input_content s2)))
                  MACOS_SERIAL_NUMBER_BUFFER_SIZE w2;
              s3 = (case sn of None \<Rightarrow> s2
                    | Some v \<Rightarrow> s2\<lparr>digest_input_content :=
                                      (digest_input_content s2)\<lparr>serial_number := v\<rparr>\<rparr>)
          in if RETURN_SUCCESS \<noteq> rc3 then (rc3, s3, w3)
          else
            let (rc4, hu, w4) =
                  cpid_get_hardware_uuid P (Some (hardware_uuid (digest_input_content s3))) w3;
                s4 = (case hu of None \<Rightarrow> s3
                      | Some v \<Rightarrow> s3\<lparr>digest_input_content :=
                                        (digest_input_content s3)\<lparr>hardware_uuid := v\<rparr>\<rparr>)
            in if RETURN_SUCCESS \<noteq> rc4 then (rc4, s4, w4)
            else
              let (rc5, kt, w5) =
                    cpid_get_process_creation_time P MAX_PID KERNEL_TASK_PID
                      (Some (kernel_task_creation_time (digest_input_content s4))) w4;
                  s5 = (case kt of None \<Rightarrow> s4
                        | Some v \<Rightarrow> s4\<lparr>digest_input_content :=
                                          (digest_input_content s4)\<lparr>kernel_task_creation_time := v\<rparr>\<rparr>)
              in if RETURN_SUCCESS \<noteq> rc5 then (rc5, s5, w5)
              else
                let (rc6, lt, w6) =
                      cpid_get_process_creation_time P MAX_PID LAUNCHD_PID
                        (Some (launchd_creation_time (digest_input_content s5))) w5;
                    s6 = (case lt of None \<Rightarrow> s5
                          | Some v \<Rightarrow> s5\<lparr>digest_input_content :=
                                            (digest_input_content s5)\<lparr>launchd_creation_time := v\<rparr>\<rparr>)
                in (rc6, s6, w6))"

text \<open>Lines 142 to 191.\<close>

definition cpid_initialize :: "platform \<Rightarrow> uint32_t \<Rightarrow> world \<Rightarrow> fault + (nat option \<times> world)" where
  "cpid_initialize P MAX_PID w =
     (case calloc_cpid_struct P w of
        (None, w0) \<Rightarrow> Inr (None, w0)
      | (Some a, w0) \<Rightarrow>
          let (return_code, s, w1) = cpid_initialize_block P MAX_PID zero_cpid_struct w0;
              w2 = w1\<lparr>handles := (handles w1)(a \<mapsto> s)\<rparr>
          in if RETURN_SUCCESS \<noteq> return_code
             then (case cpid_finalize (Some a) w2 of
                     Inl f \<Rightarrow> Inl f
                   | Inr w3 \<Rightarrow> Inr (None, w3))
             else Inr (Some a, w2))"

text \<open>Lines 237 to 241: the version and the variant bits.\<close>

definition set_version_and_variant :: "byte list \<Rightarrow> byte list" where
  "set_version_and_variant buf =
     (let buf6 = buf[6 := (buf ! 6 AND 0x0F) OR 0x80]
      in buf6[8 := (buf6 ! 8 AND 0x3F) OR 0x80])"

text \<open>Lines 212 to 215: the process-specific fields of the record.\<close>

definition process_specific_information ::
  "digest_input_content_t \<Rightarrow> uint32_t \<Rightarrow> uint64_t \<Rightarrow> uint32_t \<Rightarrow> digest_input_content_t" where
  "process_specific_information content pid' creation_time_unix_epoch_seconds
       creation_time_micros_offset =
     content
       \<lparr>pid := ucast pid',
        process_creation_time :=
          \<lparr>unix_epoch_seconds = creation_time_unix_epoch_seconds,
           micros_offset = ucast creation_time_micros_offset\<rparr>\<rparr>"

text \<open>Lines 207 to 247.\<close>

definition cpid_make_uuid ::
  "platform \<Rightarrow> uint32_t \<Rightarrow> nat option \<Rightarrow> uint32_t \<Rightarrow> uint64_t \<Rightarrow> uint32_t \<Rightarrow> bytes16 option \<Rightarrow>
     world \<Rightarrow> fault + (return_code \<times> bytes16 option \<times> world)" where
  "cpid_make_uuid P MAX_PID library_handle pid' creation_time_unix_epoch_seconds
       creation_time_micros_offset uuid w =
     (case library_handle of
        None \<Rightarrow> Inr (RETURN_ERROR, uuid, w)
      | Some a \<Rightarrow>
          if pid' > MAX_PID \<or> creation_time_micros_offset > MAX_MICROS_OFFSET \<or> uuid = None
          then Inr (RETURN_ERROR, uuid, w)
          else
            (case handles w a of
               None \<Rightarrow> Inl InvalidPointer
             | Some s \<Rightarrow>
                 let content = process_specific_information (digest_input_content s) pid'
                                 creation_time_unix_epoch_seconds creation_time_micros_offset;
                     s1 = s\<lparr>digest_input_content := content\<rparr>;
                     w1 = w\<lparr>handles := (handles w)(a \<mapsto> s1)\<rparr>
                 in (case EVP_DigestInit_ex2 P (digest_context s1) (sha256 s1) w1 of
                      Inl f \<Rightarrow> Inl f
                    | Inr (rc2, w2) \<Rightarrow>
                        if OPEN_SSL_SUCCESS \<noteq> rc2 then Inr (RETURN_ERROR, uuid, w2)
                        else
                          (case EVP_DigestUpdate P (digest_context s1)
                                  (bytes_of_digest_input_content content) w2 of
                             Inl f \<Rightarrow> Inl f
                           | Inr (rc3, w3) \<Rightarrow>
                               if OPEN_SSL_SUCCESS \<noteq> rc3 then Inr (RETURN_ERROR, uuid, w3)
                               else
                                 (case EVP_DigestFinal_ex P (digest_context s1)
                                         (digest_destination_buffer s1) w3 of
                                    Inl f \<Rightarrow> Inl f
                                  | Inr (rc4, buf, digest_size, w4) \<Rightarrow>
                                      let w5 = w4\<lparr>handles := (handles w4)
                                                 (a \<mapsto> s1\<lparr>digest_destination_buffer := buf\<rparr>)\<rparr>
                                      in if OPEN_SSL_SUCCESS \<noteq> rc4 then Inr (RETURN_ERROR, uuid, w5)
                                         else if SHA256_BUFFER_SIZE \<noteq> digest_size
                                         then Inr (RETURN_ERROR, uuid, w5)
                                         else
                                           let buf' = set_version_and_variant buf;
                                               w6 = w4\<lparr>handles := (handles w4)
                                                      (a \<mapsto> s1\<lparr>digest_destination_buffer := buf'\<rparr>)\<rparr>
                                           in Inr (RETURN_SUCCESS,
                                                   Some (bytes16_of (take sizeof_uuid_t buf')),
                                                   w6))))))"

text \<open>Lines 249 to 265. The local \<^verbatim>\<open>process_creation_time\<close> is not initialised in the C
  code and is never read before \<^verbatim>\<open>cpid_get_process_creation_time\<close> has written it.\<close>

definition cpid_get_uuid ::
  "platform \<Rightarrow> uint32_t \<Rightarrow> nat option \<Rightarrow> uint32_t \<Rightarrow> bytes16 option \<Rightarrow> world \<Rightarrow>
     fault + (return_code \<times> bytes16 option \<times> world)" where
  "cpid_get_uuid P MAX_PID library_handle pid' uuid w =
     (if library_handle = None \<or> uuid = None then Inr (RETURN_ERROR, uuid, w)
      else
        case cpid_get_process_creation_time P MAX_PID pid' (Some zero_process_creation_time) w of
          (rc1, t, w1) \<Rightarrow>
            (case (rc1, t) of
               (RETURN_SUCCESS, Some process_creation_time') \<Rightarrow>
                 (case cpid_make_uuid P MAX_PID library_handle pid'
                         (unix_epoch_seconds process_creation_time')
                         (ucast (micros_offset process_creation_time')) uuid w1 of
                    Inl f \<Rightarrow> Inl f
                  | Inr (rc2, uuid', w2) \<Rightarrow>
                      if RETURN_SUCCESS \<noteq> rc2 then Inr (RETURN_ERROR, uuid', w2)
                      else Inr (RETURN_SUCCESS, uuid', w2))
             | _ \<Rightarrow> Inr (RETURN_ERROR, uuid, w1)))"

subsection \<open>libuuid's \<^verbatim>\<open>uuid_unparse\<close> and \<^verbatim>\<open>tolower\<close>\<close>

text \<open>
  \<^verbatim>\<open>uuid_unparse\<close> writes 36 characters and a terminator: the bytes in hexadecimal, two
  digits each, most significant first, with a hyphen after bytes 4, 6, 8 and 10. Whether
  the digits a to f come out in upper or lower case is the platform's choice
  (\<open>uuid_unparse_upper\<close>; upper case on macOS by the comment of line 281).
\<close>

definition hex_digit :: "bool \<Rightarrow> nat \<Rightarrow> char" where
  "hex_digit upper n =
     (if upper then ''0123456789ABCDEF'' else ''0123456789abcdef'') ! n"

definition hex_byte :: "bool \<Rightarrow> byte \<Rightarrow> string" where
  "hex_byte upper b = [hex_digit upper (unat (drop_bit 4 b)), hex_digit upper (unat (b AND 0x0F))]"

definition hex_bytes :: "bool \<Rightarrow> byte list \<Rightarrow> string" where
  "hex_bytes upper bs = concat (map (hex_byte upper) bs)"

definition uuid_text :: "bool \<Rightarrow> bytes16 \<Rightarrow> string" where
  "uuid_text upper u =
     (let b = bytes_of u
      in hex_bytes upper (take 4 b) @ ''-'' @
         hex_bytes upper (take 2 (drop 4 b)) @ ''-'' @
         hex_bytes upper (take 2 (drop 6 b)) @ ''-'' @
         hex_bytes upper (take 2 (drop 8 b)) @ ''-'' @
         hex_bytes upper (drop 10 b))"

definition uuid_unparse :: "platform \<Rightarrow> bytes16 \<Rightarrow> string" where
  "uuid_unparse P u = uuid_text (uuid_unparse_upper P) u @ [CHR 0x00]"

text \<open>\<^verbatim>\<open>tolower\<close> in the C locale: the letters A to Z (65 to 90) move by 32.\<close>

definition tolower :: "char \<Rightarrow> char" where
  "tolower c =
     (if 65 \<le> (of_char c :: nat) \<and> (of_char c :: nat) \<le> 90
      then char_of ((of_char c :: nat) + 32)
      else c)"

text \<open>Lines 283 to 285, the loop over the \<^verbatim>\<open>sizeof(uuid_string_t)\<close> characters.\<close>

function tolower_loop :: "nat \<Rightarrow> string \<Rightarrow> string" where
  "tolower_loop i uuid_string =
     (if i < sizeof_uuid_string_t
      then tolower_loop (Suc i) (uuid_string[i := tolower (uuid_string ! i)])
      else uuid_string)"
  by pat_completeness auto

termination
  by (relation "measure (\<lambda>(i, uuid_string). sizeof_uuid_string_t - i)") auto

declare tolower_loop.simps [simp del]

text \<open>Lines 267 to 288.\<close>

definition cpid_get_uuid_string ::
  "platform \<Rightarrow> uint32_t \<Rightarrow> nat option \<Rightarrow> uint32_t \<Rightarrow> string option \<Rightarrow> world \<Rightarrow>
     fault + (return_code \<times> string option \<times> world)" where
  "cpid_get_uuid_string P MAX_PID library_handle pid' uuid_string w =
     (if library_handle = None \<or> uuid_string = None then Inr (RETURN_ERROR, uuid_string, w)
      else
        case cpid_get_uuid P MAX_PID library_handle pid' (Some (bytes16_of [])) w of
          Inl f \<Rightarrow> Inl f
        | Inr (rc, uuid, w1) \<Rightarrow>
            (case (rc, uuid) of
               (RETURN_SUCCESS, Some u) \<Rightarrow>
                 Inr (RETURN_SUCCESS, Some (tolower_loop 0 (uuid_unparse P u)), w1)
             | _ \<Rightarrow> Inr (RETURN_ERROR, uuid_string, w1)))"

section \<open>Predicates of the statements\<close>

text \<open>
  A fully initialised handle: its block is allocated with its scratch buffer, and its two
  OpenSSL pointers lead to a digest context and to the algorithm fetched as SHA256.
\<close>

definition fully_initialized :: "world \<Rightarrow> nat \<Rightarrow> bool" where
  "fully_initialized w a =
     (case handles w a of
        None \<Rightarrow> False
      | Some s \<Rightarrow>
          length (digest_destination_buffer s) = EVP_MAX_MD_SIZE \<and>
          (case digest_context s of None \<Rightarrow> False | Some c \<Rightarrow> md_ctxs w c \<noteq> None) \<and>
          (case sha256 s of None \<Rightarrow> False | Some m \<Rightarrow> mds w m = Some ''SHA256''))"

text \<open>
  Nothing is allocated at or above \<open>next_addr\<close>: the allocator hands out addresses that
  are not in use.
\<close>

definition fresh_world :: "world \<Rightarrow> bool" where
  "fresh_world w =
     (\<forall>a. next_addr w \<le> a \<longrightarrow> handles w a = None \<and> md_ctxs w a = None \<and> mds w a = None)"

text \<open>
  A handle that \<^verbatim>\<open>cpid_finalize\<close> may be given: its block is allocated, and each OpenSSL
  pointer in it is \<^verbatim>\<open>NULL\<close> or leads to an allocated object. This covers the partially
  initialised handles of \<^verbatim>\<open>cpid_initialize\<close>.
\<close>

definition releasable :: "world \<Rightarrow> nat \<Rightarrow> bool" where
  "releasable w a =
     (case handles w a of
        None \<Rightarrow> False
      | Some s \<Rightarrow>
          (case digest_context s of None \<Rightarrow> True | Some c \<Rightarrow> md_ctxs w c \<noteq> None) \<and>
          (case sha256 s of None \<Rightarrow> True | Some m \<Rightarrow> mds w m \<noteq> None))"

text \<open>The world after \<^verbatim>\<open>cpid_finalize\<close> has released all a handle owns.\<close>

definition released :: "world \<Rightarrow> nat \<Rightarrow> cpid_struct \<Rightarrow> world" where
  "released w a s =
     w\<lparr>handles := (handles w)(a := None),
       md_ctxs := (case digest_context s of None \<Rightarrow> md_ctxs w | Some c \<Rightarrow> (md_ctxs w)(c := None)),
       mds := (case sha256 s of None \<Rightarrow> mds w | Some m \<Rightarrow> (mds w)(m := None))\<rparr>"

text \<open>The fields of the record that \<^verbatim>\<open>cpid_initialize\<close> fills.\<close>

definition constant_fields ::
  "digest_input_content_t \<Rightarrow> bytes16 \<times> bytes16 \<times> process_creation_time_t \<times> process_creation_time_t" where
  "constant_fields c =
     (serial_number c, hardware_uuid c, kernel_task_creation_time c, launchd_creation_time c)"

text \<open>
  The identifier of a digest in the spec's words (steps 5 to 7 of MakeIdentifier): the
  first 16 bytes of the digest with the version and variant bits imprinted.
\<close>

definition identifier_of_digest :: "byte list \<Rightarrow> bytes16" where
  "identifier_of_digest digest = bytes16_of (set_version_and_variant (take 16 digest))"

text \<open>
  The grammar of the spec,
  \<^verbatim>\<open>[0-9a-f]{8}-[0-9a-f]{4}-[0-9a-f]{4}-[0-9a-f]{4}-[0-9a-f]{12}\<close>.
\<close>

definition lower_hex :: "char \<Rightarrow> bool" where
  "lower_hex c = (c \<in> set ''0123456789abcdef'')"

definition uuid_grammar :: "string \<Rightarrow> bool" where
  "uuid_grammar t =
     (length t = 36 \<and>
      list_all lower_hex (take 8 t) \<and> t ! 8 = CHR ''-'' \<and>
      list_all lower_hex (take 4 (drop 9 t)) \<and> t ! 13 = CHR ''-'' \<and>
      list_all lower_hex (take 4 (drop 14 t)) \<and> t ! 18 = CHR ''-'' \<and>
      list_all lower_hex (take 4 (drop 19 t)) \<and> t ! 23 = CHR ''-'' \<and>
      list_all lower_hex (drop 24 t))"

section \<open>A platform and a world to run the functions on\<close>

text \<open>
  Every call succeeds; the stand-in for the digest returns the last 32 bytes of its input
  in reverse order; the serial number is ABC123; the hardware UUID has every byte 0x55;
  process \<open>p\<close> started at second \<open>p + 1\<close>.
\<close>

definition example_platform :: platform where
  "example_platform =
     \<lparr>calloc_succeeds = True,
      md_fetch_succeeds = (\<lambda>algorithm. algorithm = ''SHA256''),
      md_ctx_new_succeeds = True,
      digest_init_succeeds = True,
      digest_update_succeeds = True,
      digest_final_succeeds = True,
      digest_fn = (\<lambda>algorithm d. take 32 (rev d)),
      platform_expert_found = True,
      serial_number_property = Some [0x41, 0x42, 0x43, 0x31, 0x32, 0x33],
      registry_root_found = True,
      uuid_property = Some (map of_char ''55555555-5555-5555-5555-555555555555''),
      uuid_parse = (\<lambda>t. if t = map of_char ''55555555-5555-5555-5555-555555555555''
                         then Some (bytes16_of (replicate 16 0x55)) else None),
      sysctl_kern_proc_pid = (\<lambda>p. (0, \<lparr>p_pid = p, tv_sec = ucast p + 1, tv_usec = 0\<rparr>)),
      uuid_unparse_upper = True\<rparr>"

definition empty_world :: world where
  "empty_world =
     \<lparr>handles = Map.empty, md_ctxs = Map.empty, mds = Map.empty, next_addr = 0,
      io_objects = 0, cf_objects = 0, sysctl_calls = 0\<rparr>"

definition example_struct :: cpid_struct where
  "example_struct =
     \<lparr>digest_context = Some 2, sha256 = Some 1,
      digest_destination_buffer = replicate 64 0,
      digest_input_content =
        \<lparr>serial_number = bytes16_of [0x41, 0x42, 0x43, 0x31, 0x32, 0x33],
         hardware_uuid = bytes16_of (replicate 16 0x55),
         kernel_task_creation_time = \<lparr>unix_epoch_seconds = 1, micros_offset = 0\<rparr>,
         launchd_creation_time = \<lparr>unix_epoch_seconds = 2, micros_offset = 0\<rparr>,
         process_creation_time = \<lparr>unix_epoch_seconds = 0, micros_offset = 0\<rparr>,
         pid = 0\<rparr>\<rparr>"

definition example_world :: world where
  "example_world =
     \<lparr>handles = [0 \<mapsto> example_struct],
      md_ctxs = [2 \<mapsto> \<lparr>ctx_md = None, ctx_data = []\<rparr>],
      mds = [1 \<mapsto> ''SHA256''],
      next_addr = 3, io_objects = 0, cf_objects = 0, sysctl_calls = 2\<rparr>"

text \<open>
  The example platform with another stand-in for the digest: the low four bytes of the
  seconds, of the microseconds and of the pid as the hash has read them (bytes 64, 72 and
  80 of its input), then the first 20 bytes of the input.
\<close>

definition mixing_platform :: platform where
  "mixing_platform =
     example_platform
       \<lparr>digest_fn := (\<lambda>algorithm d.
          take 4 (drop 64 d) @ take 4 (drop 72 d) @ take 4 (drop 80 d) @ take 20 d)\<rparr>"

text \<open>The example platform with no hardware UUID in the registry.\<close>

definition failing_platform :: platform where
  "failing_platform = example_platform\<lparr>uuid_property := None\<rparr>"

text \<open>A partially initialised handle: the algorithm is fetched, the context is not there.\<close>

definition partial_world :: world where
  "partial_world =
     \<lparr>handles = [0 \<mapsto> zero_cpid_struct\<lparr>sha256 := Some 1\<rparr>],
      md_ctxs = Map.empty,
      mds = [1 \<mapsto> ''SHA256''],
      next_addr = 2, io_objects = 0, cf_objects = 0, sysctl_calls = 0\<rparr>"

section \<open>Basic facts\<close>

lemma bytes_of_bytes16_of: "bytes_of (bytes16_of bs) = take 16 (bs @ replicate 16 0)"
  by (simp add: bytes_of_def bytes16_of_def Abs_bytes16_inverse)

lemma length_bytes_of: "length (bytes_of a) = 16"
  using Rep_bytes16 [of a] by (simp add: bytes_of_def)

lemma bytes16_of_bytes_of: "bytes16_of (bytes_of a) = a"
  using Rep_bytes16 [of a] by (simp add: bytes_of_def bytes16_of_def Rep_bytes16_inverse)

lemma length_bytes_of_uint64: "length (bytes_of_uint64 v) = 8"
  by (simp add: bytes_of_uint64_def)

lemma length_bytes_of_process_creation_time: "length (bytes_of_process_creation_time t) = 16"
  by (simp add: bytes_of_process_creation_time_def length_bytes_of_uint64)

lemma length_bytes_of_digest_input_content: "length (bytes_of_digest_input_content c) = 88"
  by (simp add: bytes_of_digest_input_content_def length_bytes_of
      length_bytes_of_process_creation_time length_bytes_of_uint64)

section \<open>The record fed to the hash\<close>

text \<open>
  C5. The bytes of every \<^verbatim>\<open>digest_input_content_t\<close> are exactly 88, the sum of the field
  sizes, so there is no padding: bytes 0 to 15 are the serial number, 16 to 31 the hardware
  UUID, 32 to 47, 48 to 63 and 64 to 79 the creation times of the kernel task, of launchd
  and of the process (8 bytes of seconds, then 8 bytes of microseconds), and 80 to 87 the
  pid.
\<close>

theorem digest_input_content_layout:
  "length (bytes_of_digest_input_content c) = MACOS_EXPECTED_DIGEST_INPUT_CONTENT_SIZE \<and>
   MACOS_EXPECTED_DIGEST_INPUT_CONTENT_SIZE = 88 \<and>
   take 16 (bytes_of_digest_input_content c) = bytes_of (serial_number c) \<and>
   take 16 (drop 16 (bytes_of_digest_input_content c)) = bytes_of (hardware_uuid c) \<and>
   take 8 (drop 32 (bytes_of_digest_input_content c)) =
     bytes_of_uint64 (unix_epoch_seconds (kernel_task_creation_time c)) \<and>
   take 8 (drop 40 (bytes_of_digest_input_content c)) =
     bytes_of_uint64 (micros_offset (kernel_task_creation_time c)) \<and>
   take 8 (drop 48 (bytes_of_digest_input_content c)) =
     bytes_of_uint64 (unix_epoch_seconds (launchd_creation_time c)) \<and>
   take 8 (drop 56 (bytes_of_digest_input_content c)) =
     bytes_of_uint64 (micros_offset (launchd_creation_time c)) \<and>
   take 8 (drop 64 (bytes_of_digest_input_content c)) =
     bytes_of_uint64 (unix_epoch_seconds (process_creation_time c)) \<and>
   take 8 (drop 72 (bytes_of_digest_input_content c)) =
     bytes_of_uint64 (micros_offset (process_creation_time c)) \<and>
   drop 80 (bytes_of_digest_input_content c) = bytes_of_uint64 (pid c) \<and>
   length (bytes_of_uint64 (pid c)) = 8"
  by (simp add: bytes_of_digest_input_content_def bytes_of_process_creation_time_def
      length_bytes_of length_bytes_of_uint64 MACOS_EXPECTED_DIGEST_INPUT_CONTENT_SIZE_def)

theorem digest_input_content_layout_witness:
  "length (bytes_of_digest_input_content (digest_input_content example_struct)) = 88 \<and>
   take 16 (bytes_of_digest_input_content (digest_input_content example_struct)) =
     [0x41, 0x42, 0x43, 0x31, 0x32, 0x33, 0, 0, 0, 0, 0, 0, 0, 0, 0, 0] \<and>
   take 8 (drop 48 (bytes_of_digest_input_content (digest_input_content example_struct))) =
     [2, 0, 0, 0, 0, 0, 0, 0]"
proof -
  have serial: "bytes_of (serial_number (digest_input_content example_struct)) =
      [0x41, 0x42, 0x43, 0x31, 0x32, 0x33, 0, 0, 0, 0, 0, 0, 0, 0, 0, 0]"
    by (simp add: example_struct_def bytes_of_bytes16_of eval_nat_numeral)
  have launchd: "bytes_of_uint64 (unix_epoch_seconds (launchd_creation_time
      (digest_input_content example_struct))) = [2, 0, 0, 0, 0, 0, 0, 0]"
    by (simp add: example_struct_def bytes_of_uint64_def upt_rec drop_bit_eq_div)
  show ?thesis
    using digest_input_content_layout [of "digest_input_content example_struct"]
    unfolding serial launchd MACOS_EXPECTED_DIGEST_INPUT_CONTENT_SIZE_def
    by simp
qed

section \<open>\<^verbatim>\<open>cpid_make_uuid\<close>\<close>

lemma bit8_cases: "n < (8::nat) \<Longrightarrow> n \<in> {0, 1, 2, 3, 4, 5, 6, 7}"
  by auto

lemma version_high_nibble: "((x AND 0x0F) OR 0x80) AND 0xF0 = (0x80 :: byte)"
  by (rule bit_word_eqI) (auto simp: bit_simps dest!: bit8_cases)

lemma version_low_nibble: "((x AND 0x0F) OR 0x80) AND 0x0F = (x AND 0x0F :: byte)"
  by (rule bit_word_eqI) (auto simp: bit_simps dest!: bit8_cases)

lemma variant_high_bits: "((x AND 0x3F) OR 0x80) AND 0xC0 = (0x80 :: byte)"
  by (rule bit_word_eqI) (auto simp: bit_simps dest!: bit8_cases)

lemma variant_low_bits: "((x AND 0x3F) OR 0x80) AND 0x3F = (x AND 0x3F :: byte)"
  by (rule bit_word_eqI) (auto simp: bit_simps dest!: bit8_cases)

lemma length_set_version_and_variant [simp]:
  "length (set_version_and_variant buf) = length buf"
  by (simp add: set_version_and_variant_def Let_def)

lemma take_set_version_and_variant:
  "length d = 32 \<Longrightarrow>
     take 16 (set_version_and_variant (d @ r)) = set_version_and_variant (take 16 d)"
  by (simp add: set_version_and_variant_def Let_def take_update_swap nth_append)

lemma bytes_of_identifier_of_digest:
  "16 \<le> length digest \<Longrightarrow>
     bytes_of (identifier_of_digest digest) = set_version_and_variant (take 16 digest)"
  by (simp add: identifier_of_digest_def bytes_of_bytes16_of)

text \<open>What the function does with a handle whose pointers are valid, and valid arguments.\<close>

lemma cpid_make_uuid_live:
  assumes "handles w a = Some s" and "digest_context s = Some c" and "md_ctxs w c = Some st"
    and "sha256 s = Some m" and "mds w m = Some alg"
    and "pid' \<le> MAX_PID" and "micros \<le> MAX_MICROS_OFFSET"
  shows "cpid_make_uuid P MAX_PID (Some a) pid' secs micros (Some u) w =
     Inr (let content = process_specific_information (digest_input_content s) pid' secs micros;
              s1 = s\<lparr>digest_input_content := content\<rparr>;
              d = take EVP_MAX_MD_SIZE (digest_fn P alg (bytes_of_digest_input_content content));
              buf = d @ drop (length d) (digest_destination_buffer s)
          in if \<not> digest_init_succeeds P
             then (RETURN_ERROR, Some u, w\<lparr>handles := (handles w)(a \<mapsto> s1)\<rparr>)
             else if \<not> digest_update_succeeds P
             then (RETURN_ERROR, Some u,
                   w\<lparr>handles := (handles w)(a \<mapsto> s1),
                     md_ctxs := (md_ctxs w)(c \<mapsto> \<lparr>ctx_md = Some alg, ctx_data = []\<rparr>)\<rparr>)
             else if \<not> digest_final_succeeds P
             then (RETURN_ERROR, Some u,
                   w\<lparr>handles := (handles w)(a \<mapsto> s1),
                     md_ctxs := (md_ctxs w)
                       (c \<mapsto> \<lparr>ctx_md = Some alg, ctx_data = bytes_of_digest_input_content content\<rparr>)\<rparr>)
             else if length d \<noteq> SHA256_BUFFER_SIZE
             then (RETURN_ERROR, Some u,
                   w\<lparr>handles := (handles w)(a \<mapsto> s1\<lparr>digest_destination_buffer := buf\<rparr>),
                     md_ctxs := (md_ctxs w)(c \<mapsto> \<lparr>ctx_md = None, ctx_data = []\<rparr>)\<rparr>)
             else (RETURN_SUCCESS,
                   Some (bytes16_of (take sizeof_uuid_t (set_version_and_variant buf))),
                   w\<lparr>handles := (handles w)
                       (a \<mapsto> s1\<lparr>digest_destination_buffer := set_version_and_variant buf\<rparr>),
                     md_ctxs := (md_ctxs w)(c \<mapsto> \<lparr>ctx_md = None, ctx_data = []\<rparr>)\<rparr>))"
  using assms
  by (simp add: cpid_make_uuid_def EVP_DigestInit_ex2_def EVP_DigestUpdate_def
      EVP_DigestFinal_ex_def OPEN_SSL_SUCCESS_def Let_def not_less [symmetric])

lemma cpid_make_uuid_invalid:
  "library_handle = None \<or> pid' > MAX_PID \<or> micros > MAX_MICROS_OFFSET \<or> uuid = None \<Longrightarrow>
     cpid_make_uuid P MAX_PID library_handle pid' secs micros uuid w = Inr (RETURN_ERROR, uuid, w)"
  by (auto simp: cpid_make_uuid_def split: option.splits)

lemma fully_initializedD:
  assumes "fully_initialized w a" and "handles w a = Some s"
  shows "\<exists>c st m. digest_context s = Some c \<and> md_ctxs w c = Some st \<and> sha256 s = Some m \<and>
           mds w m = Some ''SHA256'' \<and> length (digest_destination_buffer s) = EVP_MAX_MD_SIZE"
  using assms by (auto simp: fully_initialized_def split: option.splits)

lemma fully_initialized_example_world: "fully_initialized example_world 0"
  by (simp add: fully_initialized_def example_world_def example_struct_def EVP_MAX_MD_SIZE_def)

lemma handles_example_world: "handles example_world 0 = Some example_struct"
  by (simp add: example_world_def)

text \<open>A successful call had valid arguments, a digest of 32 bytes, and returns its
  identifier.\<close>

lemma cpid_make_uuid_success:
  assumes ready: "fully_initialized w a" and s: "handles w a = Some s"
    and ok: "cpid_make_uuid P MAX_PID (Some a) pid' secs micros uuid w =
               Inr (RETURN_SUCCESS, uuid', w')"
  shows "pid' \<le> MAX_PID \<and> micros \<le> MAX_MICROS_OFFSET \<and> uuid \<noteq> None \<and>
         length (digest_fn P ''SHA256'' (bytes_of_digest_input_content
           (process_specific_information (digest_input_content s) pid' secs micros))) = 32 \<and>
         uuid' = Some (identifier_of_digest
           (digest_fn P ''SHA256'' (bytes_of_digest_input_content
             (process_specific_information (digest_input_content s) pid' secs micros))))"
proof -
  have valid: "pid' \<le> MAX_PID \<and> micros \<le> MAX_MICROS_OFFSET \<and> uuid \<noteq> None"
  proof (rule ccontr)
    assume "\<not> ?thesis"
    then have "Some a = None \<or> pid' > MAX_PID \<or> micros > MAX_MICROS_OFFSET \<or> uuid = None"
      by (auto simp: not_le)
    from cpid_make_uuid_invalid [OF this] ok show False by simp
  qed
  then obtain u where u: "uuid = Some u" by auto
  from fully_initializedD [OF ready s] obtain c st m where
    h: "digest_context s = Some c" "md_ctxs w c = Some st" "sha256 s = Some m"
       "mds w m = Some ''SHA256''" by blast
  let ?d = "digest_fn P ''SHA256'' (bytes_of_digest_input_content
           (process_specific_information (digest_input_content s) pid' secs micros))"
  note live = cpid_make_uuid_live [OF s h valid [THEN conjunct1]
      valid [THEN conjunct2, THEN conjunct1]]
  from ok have len: "length (take EVP_MAX_MD_SIZE ?d) = SHA256_BUFFER_SIZE"
    unfolding u live by (simp add: Let_def split: if_splits)
  then have len32: "length ?d = 32" and take_d: "take EVP_MAX_MD_SIZE ?d = ?d"
    by (auto simp: EVP_MAX_MD_SIZE_def SHA256_BUFFER_SIZE_def min_def split: if_splits)
  from ok have "uuid' = Some (bytes16_of (take sizeof_uuid_t (set_version_and_variant
      (?d @ drop (length ?d) (digest_destination_buffer s)))))"
    unfolding u live by (simp add: Let_def take_d split: if_splits)
  then show ?thesis
    using valid len32
    by (simp add: sizeof_uuid_t_def take_set_version_and_variant identifier_of_digest_def)
qed

text \<open>With valid arguments, a working library and a digest of 32 bytes the call succeeds.\<close>

lemma cpid_make_uuid_succeeds:
  assumes ready: "fully_initialized w a" and s: "handles w a = Some s"
    and valid: "pid' \<le> MAX_PID" "micros \<le> MAX_MICROS_OFFSET"
    and lib: "digest_init_succeeds P" "digest_update_succeeds P" "digest_final_succeeds P"
    and len: "length (digest_fn P ''SHA256'' (bytes_of_digest_input_content
           (process_specific_information (digest_input_content s) pid' secs micros))) = 32"
  shows "\<exists>w'. cpid_make_uuid P MAX_PID (Some a) pid' secs micros (Some u) w =
           Inr (RETURN_SUCCESS,
                Some (identifier_of_digest
                  (digest_fn P ''SHA256'' (bytes_of_digest_input_content
                    (process_specific_information (digest_input_content s) pid' secs micros)))),
                w')"
proof -
  from fully_initializedD [OF ready s] obtain c st m where
    h: "digest_context s = Some c" "md_ctxs w c = Some st" "sha256 s = Some m"
       "mds w m = Some ''SHA256''" by blast
  show ?thesis
    unfolding cpid_make_uuid_live [OF s h valid]
    using lib len
    by (simp add: Let_def EVP_MAX_MD_SIZE_def SHA256_BUFFER_SIZE_def sizeof_uuid_t_def
        take_set_version_and_variant identifier_of_digest_def)
qed

text \<open>A digest whose reported length is not 32 makes the call fail.\<close>

lemma cpid_make_uuid_bad_length:
  assumes ready: "fully_initialized w a" and s: "handles w a = Some s"
    and valid: "pid' \<le> MAX_PID" "micros \<le> MAX_MICROS_OFFSET"
    and len: "length (take EVP_MAX_MD_SIZE (digest_fn P ''SHA256'' (bytes_of_digest_input_content
           (process_specific_information (digest_input_content s) pid' secs micros))))
         \<noteq> SHA256_BUFFER_SIZE"
  shows "\<exists>w'. cpid_make_uuid P MAX_PID (Some a) pid' secs micros (Some u) w =
           Inr (RETURN_ERROR, Some u, w')"
proof -
  from fully_initializedD [OF ready s] obtain c st m where
    h: "digest_context s = Some c" "md_ctxs w c = Some st" "sha256 s = Some m"
       "mds w m = Some ''SHA256''" by blast
  show ?thesis
    unfolding cpid_make_uuid_live [OF s h valid]
    using len by (simp add: Let_def)
qed

text \<open>
  C3. A call with a null handle, with a pid above \<^verbatim>\<open>MAX_PID\<close> or with a microsecond offset
  above 999999 returns \<^verbatim>\<open>RETURN_ERROR\<close> (the only error code of the file), and leaves the
  world, with every digest context in it, and the caller's output buffer as they were.
\<close>

theorem cpid_make_uuid_invalid_argument:
  assumes "library_handle = None \<or> pid' > MAX_PID \<or> micros > 999999"
  shows "cpid_make_uuid P MAX_PID library_handle pid' secs micros uuid w =
           Inr (RETURN_ERROR, uuid, w)"
  using assms by (intro cpid_make_uuid_invalid) (auto simp: MAX_MICROS_OFFSET_def)

theorem cpid_make_uuid_invalid_argument_witness:
  "cpid_make_uuid example_platform 99999 None 4321 1700000000 500000
       (Some (bytes16_of [])) example_world =
     Inr (RETURN_ERROR, Some (bytes16_of []), example_world) \<and>
   (100000 :: uint32_t) > 99999 \<and>
   cpid_make_uuid example_platform 99999 (Some 0) 100000 1700000000 500000
       (Some (bytes16_of [])) example_world =
     Inr (RETURN_ERROR, Some (bytes16_of []), example_world) \<and>
   (1000000 :: uint32_t) > 999999 \<and>
   cpid_make_uuid example_platform 99999 (Some 0) 4321 1700000000 1000000
       (Some (bytes16_of [])) example_world =
     Inr (RETURN_ERROR, Some (bytes16_of []), example_world)"
proof -
  have pid_large: "(100000 :: uint32_t) > 99999" by simp
  have micros_large: "(1000000 :: uint32_t) > 999999" by simp
  show ?thesis
    using pid_large micros_large
      cpid_make_uuid_invalid_argument [where library_handle = None and pid' = 4321
        and MAX_PID = 99999 and micros = 500000]
      cpid_make_uuid_invalid_argument [where library_handle = "Some 0" and pid' = 100000
        and MAX_PID = 99999 and micros = 500000]
      cpid_make_uuid_invalid_argument [where library_handle = "Some 0" and pid' = 4321
        and MAX_PID = 99999 and micros = 1000000]
    by simp
qed

text \<open>The example call: process 4321, started at second 1700000000 and 500000 microseconds.\<close>

lemma example_digest:
  "digest_fn example_platform ''SHA256''
     (bytes_of_digest_input_content
       (process_specific_information (digest_input_content example_struct) 4321 1700000000 500000)) =
   [0, 0, 0, 0, 0, 0, 0x10, 0xE1, 0, 0, 0, 0, 0, 0x07, 0xA1, 0x20,
    0, 0, 0, 0, 0x65, 0x53, 0xF1, 0, 0, 0, 0, 0, 0, 0, 0, 0]"
  by (simp add: example_platform_def example_struct_def process_specific_information_def
      bytes_of_digest_input_content_def bytes_of_process_creation_time_def
      bytes_of_uint64_def upt_rec drop_bit_eq_div length_bytes_of)

lemma example_identifier:
  "identifier_of_digest
     [0, 0, 0, 0, 0, 0, 0x10, 0xE1, 0, 0, 0, 0, 0, 0x07, 0xA1, 0x20,
      0, 0, 0, 0, 0x65, 0x53, 0xF1, 0, 0, 0, 0, 0, 0, 0, 0, 0] =
   bytes16_of [0, 0, 0, 0, 0, 0, 0x80, 0xE1, 0x80, 0, 0, 0, 0, 0x07, 0xA1, 0x20]"
  by (simp add: identifier_of_digest_def set_version_and_variant_def)

lemma example_arguments:
  "(4321 :: uint32_t) \<le> 99999" "(500000 :: uint32_t) \<le> MAX_MICROS_OFFSET"
  by (simp_all add: MAX_MICROS_OFFSET_def)

lemma example_library:
  "digest_init_succeeds example_platform" "digest_update_succeeds example_platform"
  "digest_final_succeeds example_platform"
  by (simp_all add: example_platform_def)

lemma example_make_uuid:
  "\<exists>w'. cpid_make_uuid example_platform 99999 (Some 0) 4321 1700000000 500000
          (Some u) example_world =
        Inr (RETURN_SUCCESS,
             Some (bytes16_of [0, 0, 0, 0, 0, 0, 0x80, 0xE1, 0x80, 0, 0, 0, 0, 0x07, 0xA1, 0x20]),
             w')"
  using cpid_make_uuid_succeeds [OF fully_initialized_example_world handles_example_world
      example_arguments example_library, where secs = 1700000000 and u = u]
  unfolding example_digest example_identifier by simp

text \<open>The bytes the hash reads, field by field, with the arguments of the call in the
  process-specific fields.\<close>

lemma bytes_of_process_specific_information:
  "bytes_of_digest_input_content
     (process_specific_information content pid' secs micros) =
   bytes_of (serial_number content) @
   bytes_of (hardware_uuid content) @
   bytes_of_uint64 (unix_epoch_seconds (kernel_task_creation_time content)) @
   bytes_of_uint64 (micros_offset (kernel_task_creation_time content)) @
   bytes_of_uint64 (unix_epoch_seconds (launchd_creation_time content)) @
   bytes_of_uint64 (micros_offset (launchd_creation_time content)) @
   bytes_of_uint64 secs @
   bytes_of_uint64 (ucast micros) @
   bytes_of_uint64 (ucast pid')"
  by (simp add: bytes_of_digest_input_content_def bytes_of_process_creation_time_def
      process_specific_information_def)

text \<open>The identifier of a digest of 32 bytes, byte by byte.\<close>

lemma bytes_of_identifier_of_digest_32:
  "length digest = 32 \<Longrightarrow>
     bytes_of (identifier_of_digest digest) =
       (take 16 digest)
         [6 := (digest ! 6 AND 0x0F) OR 0x80, 8 := (digest ! 8 AND 0x3F) OR 0x80]"
  by (simp add: bytes_of_identifier_of_digest set_version_and_variant_def Let_def)

text \<open>
  C1. On a fully initialised handle with valid arguments, let the record be the 88 bytes
  made of the handle's serial number, hardware UUID and the creation times of the kernel
  task and of launchd, followed by the seconds, the microseconds and the pid of the call
  (8 bytes each), and let the digest be what SHA256 gives for these bytes. A call that
  succeeds returns exactly the first 16 bytes of the digest, with byte 6 replaced by its
  low nibble under the high nibble 1000 and byte 8 by its low six bits under the top bits
  10, and the digest was 32 bytes long; with a working library and a digest of 32 bytes
  the call does succeed; and when the digest length that \<^verbatim>\<open>EVP_DigestFinal_ex\<close> reports is
  not 32 the call returns \<^verbatim>\<open>RETURN_ERROR\<close> and leaves the output buffer as it was.
\<close>

theorem cpid_make_uuid_truncated_sha256:
  fixes P :: platform and s :: cpid_struct
    and pid' :: uint32_t and secs :: uint64_t and micros :: uint32_t
  defines "input \<equiv>
             bytes_of (serial_number (digest_input_content s)) @
             bytes_of (hardware_uuid (digest_input_content s)) @
             bytes_of_uint64 (unix_epoch_seconds (kernel_task_creation_time (digest_input_content s))) @
             bytes_of_uint64 (micros_offset (kernel_task_creation_time (digest_input_content s))) @
             bytes_of_uint64 (unix_epoch_seconds (launchd_creation_time (digest_input_content s))) @
             bytes_of_uint64 (micros_offset (launchd_creation_time (digest_input_content s))) @
             bytes_of_uint64 secs @
             bytes_of_uint64 (ucast micros) @
             bytes_of_uint64 (ucast pid')"
  defines "digest \<equiv> digest_fn P ''SHA256'' input"
  defines "expected \<equiv>
             (take 16 digest)
               [6 := (digest ! 6 AND 0x0F) OR 0x80, 8 := (digest ! 8 AND 0x3F) OR 0x80]"
  assumes ready: "fully_initialized w a" and s: "handles w a = Some s"
    and valid: "pid' \<le> MAX_PID" "micros \<le> MAX_MICROS_OFFSET"
  shows "length input = 88 \<and>
         (\<forall>uuid' w'.
            cpid_make_uuid P MAX_PID (Some a) pid' secs micros (Some u) w =
              Inr (RETURN_SUCCESS, uuid', w') \<longrightarrow>
            length digest = 32 \<and> (\<exists>out. uuid' = Some out \<and> bytes_of out = expected)) \<and>
         (digest_init_succeeds P \<and> digest_update_succeeds P \<and> digest_final_succeeds P \<and>
          length digest = 32 \<longrightarrow>
            (\<exists>out w'. cpid_make_uuid P MAX_PID (Some a) pid' secs micros (Some u) w =
               Inr (RETURN_SUCCESS, Some out, w') \<and> bytes_of out = expected)) \<and>
         (length (take EVP_MAX_MD_SIZE digest) \<noteq> SHA256_BUFFER_SIZE \<longrightarrow>
            (\<exists>w'. cpid_make_uuid P MAX_PID (Some a) pid' secs micros (Some u) w =
               Inr (RETURN_ERROR, Some u, w')))"
proof -
  have input: "bytes_of_digest_input_content
      (process_specific_information (digest_input_content s) pid' secs micros) = input"
    by (simp add: input_def bytes_of_process_specific_information)
  have digest: "digest_fn P ''SHA256'' (bytes_of_digest_input_content
      (process_specific_information (digest_input_content s) pid' secs micros)) = digest"
    by (simp add: digest_def input)
  have expected: "bytes_of (identifier_of_digest digest) = expected" if "length digest = 32"
    using that by (simp add: expected_def bytes_of_identifier_of_digest_32)
  show ?thesis
  proof (intro conjI allI impI)
    show "length input = 88"
      unfolding input [symmetric] by (rule length_bytes_of_digest_input_content)
  next
    fix uuid' w'
    assume ok: "cpid_make_uuid P MAX_PID (Some a) pid' secs micros (Some u) w =
        Inr (RETURN_SUCCESS, uuid', w')"
    from cpid_make_uuid_success [OF ready s ok]
    have len: "length digest = 32" and out: "uuid' = Some (identifier_of_digest digest)"
      by (simp_all add: digest)
    show "length digest = 32" by (rule len)
    from out expected [OF len] show "\<exists>out. uuid' = Some out \<and> bytes_of out = expected"
      by blast
  next
    assume lib: "digest_init_succeeds P \<and> digest_update_succeeds P \<and>
      digest_final_succeeds P \<and> length digest = 32"
    then have "\<exists>w'. cpid_make_uuid P MAX_PID (Some a) pid' secs micros (Some u) w =
        Inr (RETURN_SUCCESS, Some (identifier_of_digest digest), w')"
      using cpid_make_uuid_succeeds [OF ready s valid, of P secs u]
      by (simp add: digest)
    with lib expected
    show "\<exists>out w'. cpid_make_uuid P MAX_PID (Some a) pid' secs micros (Some u) w =
        Inr (RETURN_SUCCESS, Some out, w') \<and> bytes_of out = expected"
      by blast
  next
    assume "length (take EVP_MAX_MD_SIZE digest) \<noteq> SHA256_BUFFER_SIZE"
    then show "\<exists>w'. cpid_make_uuid P MAX_PID (Some a) pid' secs micros (Some u) w =
        Inr (RETURN_ERROR, Some u, w')"
      using cpid_make_uuid_bad_length [OF ready s valid, of P secs u]
      by (simp add: digest)
  qed
qed

theorem cpid_make_uuid_truncated_sha256_witness:
  "fully_initialized example_world 0 \<and> handles example_world 0 = Some example_struct \<and>
   (4321 :: uint32_t) \<le> 99999 \<and> (500000 :: uint32_t) \<le> MAX_MICROS_OFFSET \<and>
   (\<exists>out w'. cpid_make_uuid mixing_platform 99999 (Some 0) 4321 1700000000 500000
            (Some (bytes16_of [])) example_world =
          Inr (RETURN_SUCCESS, Some out, w') \<and>
        bytes_of out =
          [0x00, 0xF1, 0x53, 0x65, 0x20, 0xA1, 0x87, 0x00,
           0xA1, 0x10, 0x00, 0x00, 0x41, 0x42, 0x43, 0x31])"
proof -
  have serial: "bytes_of (serial_number (digest_input_content example_struct)) =
      [0x41, 0x42, 0x43, 0x31, 0x32, 0x33, 0, 0, 0, 0, 0, 0, 0, 0, 0, 0]"
    by (simp add: example_struct_def bytes_of_bytes16_of eval_nat_numeral)
  have hardware: "bytes_of (hardware_uuid (digest_input_content example_struct)) =
      [0x55, 0x55, 0x55, 0x55, 0x55, 0x55, 0x55, 0x55,
       0x55, 0x55, 0x55, 0x55, 0x55, 0x55, 0x55, 0x55]"
    by (simp add: example_struct_def bytes_of_bytes16_of eval_nat_numeral)
  have times:
    "bytes_of_uint64 (unix_epoch_seconds
       (kernel_task_creation_time (digest_input_content example_struct))) =
     [1, 0, 0, 0, 0, 0, 0, 0]"
    "bytes_of_uint64 (micros_offset
       (kernel_task_creation_time (digest_input_content example_struct))) =
     [0, 0, 0, 0, 0, 0, 0, 0]"
    "bytes_of_uint64 (unix_epoch_seconds
       (launchd_creation_time (digest_input_content example_struct))) =
     [2, 0, 0, 0, 0, 0, 0, 0]"
    "bytes_of_uint64 (micros_offset
       (launchd_creation_time (digest_input_content example_struct))) =
     [0, 0, 0, 0, 0, 0, 0, 0]"
    "bytes_of_uint64 1700000000 = [0x00, 0xF1, 0x53, 0x65, 0, 0, 0, 0]"
    "bytes_of_uint64 (ucast (500000 :: uint32_t)) = [0x20, 0xA1, 0x07, 0, 0, 0, 0, 0]"
    "bytes_of_uint64 (ucast (4321 :: uint32_t)) = [0xE1, 0x10, 0, 0, 0, 0, 0, 0]"
    by (simp_all add: example_struct_def bytes_of_uint64_def upt_rec drop_bit_eq_div)
  have digest: "digest_fn mixing_platform ''SHA256''
      (bytes_of (serial_number (digest_input_content example_struct)) @
       bytes_of (hardware_uuid (digest_input_content example_struct)) @
       bytes_of_uint64 (unix_epoch_seconds
         (kernel_task_creation_time (digest_input_content example_struct))) @
       bytes_of_uint64 (micros_offset
         (kernel_task_creation_time (digest_input_content example_struct))) @
       bytes_of_uint64 (unix_epoch_seconds
         (launchd_creation_time (digest_input_content example_struct))) @
       bytes_of_uint64 (micros_offset
         (launchd_creation_time (digest_input_content example_struct))) @
       bytes_of_uint64 1700000000 @
       bytes_of_uint64 (ucast (500000 :: uint32_t)) @
       bytes_of_uint64 (ucast (4321 :: uint32_t))) =
      [0x00, 0xF1, 0x53, 0x65, 0x20, 0xA1, 0x07, 0x00,
       0xE1, 0x10, 0x00, 0x00, 0x41, 0x42, 0x43, 0x31,
       0x32, 0x33, 0, 0, 0, 0, 0, 0, 0, 0, 0, 0, 0x55, 0x55, 0x55, 0x55]"
    unfolding serial hardware times
    by (simp add: mixing_platform_def example_platform_def)
  have lib: "digest_init_succeeds mixing_platform" "digest_update_succeeds mixing_platform"
    "digest_final_succeeds mixing_platform"
    by (simp_all add: mixing_platform_def example_platform_def)
  from cpid_make_uuid_truncated_sha256 [OF fully_initialized_example_world
      handles_example_world example_arguments, where P = mixing_platform
      and secs = 1700000000 and u = "bytes16_of []"]
  have "\<exists>out w'. cpid_make_uuid mixing_platform 99999 (Some 0) 4321 1700000000 500000
            (Some (bytes16_of [])) example_world =
          Inr (RETURN_SUCCESS, Some out, w') \<and>
        bytes_of out =
          [0x00, 0xF1, 0x53, 0x65, 0x20, 0xA1, 0x87, 0x00,
           0xA1, 0x10, 0x00, 0x00, 0x41, 0x42, 0x43, 0x31]"
    unfolding digest using lib by simp
  with example_arguments fully_initialized_example_world handles_example_world
  show ?thesis by blast
qed

text \<open>
  C2. In the 16 bytes a successful call returns, byte 6 has the high nibble 1000 and the
  low nibble of byte 6 of the digest, and byte 8 has the top two bits 10 and the low six
  bits of byte 8 of the digest.
\<close>

theorem cpid_make_uuid_version_and_variant:
  fixes P :: platform and s :: cpid_struct
    and pid' :: uint32_t and secs :: uint64_t and micros :: uint32_t
  defines "digest \<equiv> digest_fn P ''SHA256'' (bytes_of_digest_input_content
             (process_specific_information (digest_input_content s) pid' secs micros))"
  assumes ready: "fully_initialized w a" and s: "handles w a = Some s"
    and ok: "cpid_make_uuid P MAX_PID (Some a) pid' secs micros uuid w =
           Inr (RETURN_SUCCESS, Some out, w')"
  shows "bytes_of out ! 6 AND 0xF0 = 0x80 \<and>
         bytes_of out ! 6 AND 0x0F = digest ! 6 AND 0x0F \<and>
         bytes_of out ! 8 AND 0xC0 = 0x80 \<and>
         bytes_of out ! 8 AND 0x3F = digest ! 8 AND 0x3F"
proof -
  from cpid_make_uuid_success [OF ready s ok]
  have len: "length digest = 32" and out: "out = identifier_of_digest digest"
    by (simp_all add: digest_def)
  have "bytes_of out = set_version_and_variant (take 16 digest)"
    using len by (simp add: out bytes_of_identifier_of_digest)
  then show ?thesis
    using len
    by (simp add: set_version_and_variant_def Let_def version_high_nibble version_low_nibble
        variant_high_bits variant_low_bits)
qed

theorem cpid_make_uuid_version_and_variant_witness:
  "fully_initialized example_world 0 \<and> handles example_world 0 = Some example_struct \<and>
   (\<exists>out w'.
      cpid_make_uuid example_platform 99999 (Some 0) 4321 1700000000 500000
          (Some (bytes16_of [])) example_world =
        Inr (RETURN_SUCCESS, Some out, w') \<and>
      bytes_of out = [0, 0, 0, 0, 0, 0, 0x80, 0xE1, 0x80, 0, 0, 0, 0, 0x07, 0xA1, 0x20] \<and>
      bytes_of out ! 6 AND 0xF0 = 0x80 \<and> bytes_of out ! 6 AND 0x0F = 0x10 AND 0x0F \<and>
      bytes_of out ! 8 AND 0xC0 = 0x80 \<and> bytes_of out ! 8 AND 0x3F = 0x00 AND 0x3F)"
proof -
  from example_make_uuid [of "bytes16_of []"] obtain w' where
    run: "cpid_make_uuid example_platform 99999 (Some 0) 4321 1700000000 500000
          (Some (bytes16_of [])) example_world =
        Inr (RETURN_SUCCESS,
             Some (bytes16_of [0, 0, 0, 0, 0, 0, 0x80, 0xE1, 0x80, 0, 0, 0, 0, 0x07, 0xA1, 0x20]),
             w')" ..
  have bytes: "bytes_of (bytes16_of [0, 0, 0, 0, 0, 0, 0x80, 0xE1, 0x80, 0, 0, 0, 0, 0x07, 0xA1, 0x20]) =
      [0, 0, 0, 0, 0, 0, 0x80, 0xE1, 0x80, 0, 0, 0, 0, 0x07, 0xA1, 0x20]"
    by (simp add: bytes_of_bytes16_of)
  from cpid_make_uuid_version_and_variant [OF fully_initialized_example_world
      handles_example_world run]
  have "bytes_of (bytes16_of [0, 0, 0, 0, 0, 0, 0x80, 0xE1, 0x80, 0, 0, 0, 0, 0x07, 0xA1, 0x20]) ! 6
          AND 0xF0 = 0x80 \<and>
        bytes_of (bytes16_of [0, 0, 0, 0, 0, 0, 0x80, 0xE1, 0x80, 0, 0, 0, 0, 0x07, 0xA1, 0x20]) ! 6
          AND 0x0F = 0x10 AND 0x0F \<and>
        bytes_of (bytes16_of [0, 0, 0, 0, 0, 0, 0x80, 0xE1, 0x80, 0, 0, 0, 0, 0x07, 0xA1, 0x20]) ! 8
          AND 0xC0 = 0x80 \<and>
        bytes_of (bytes16_of [0, 0, 0, 0, 0, 0, 0x80, 0xE1, 0x80, 0, 0, 0, 0, 0x07, 0xA1, 0x20]) ! 8
          AND 0x3F = 0x00 AND 0x3F"
    unfolding example_digest by simp
  with run bytes fully_initialized_example_world handles_example_world
  show ?thesis by blast
qed

text \<open>What any call that returns leaves behind on a fully initialised handle.\<close>

lemma constant_fields_process_specific_information [simp]:
  "constant_fields (process_specific_information content pid' secs micros) =
     constant_fields content"
  by (simp add: constant_fields_def process_specific_information_def)

lemma cpid_make_uuid_world:
  assumes ready: "fully_initialized w a" and s: "handles w a = Some s"
    and call: "cpid_make_uuid P MAX_PID (Some a) pid' secs micros uuid w = Inr (rc, uuid', w')"
  shows "(\<exists>s'. handles w' a = Some s' \<and>
            s' = s\<lparr>digest_destination_buffer := digest_destination_buffer s',
                   digest_input_content := (digest_input_content s)
                     \<lparr>process_creation_time := process_creation_time (digest_input_content s'),
                      pid := pid (digest_input_content s')\<rparr>\<rparr> \<and>
            length (digest_destination_buffer s') = EVP_MAX_MD_SIZE) \<and>
         (\<forall>b. b \<noteq> a \<longrightarrow> handles w' b = handles w b) \<and>
         (\<forall>c. (md_ctxs w' c = None) = (md_ctxs w c = None)) \<and>
         (\<forall>c. Some c \<noteq> digest_context s \<longrightarrow> md_ctxs w' c = md_ctxs w c) \<and>
         w' = w\<lparr>handles := handles w', md_ctxs := md_ctxs w'\<rparr>"
proof -
  from fully_initializedD [OF ready s] obtain c st m where
    h: "digest_context s = Some c" "md_ctxs w c = Some st" "sha256 s = Some m"
       "mds w m = Some ''SHA256''"
    and len: "length (digest_destination_buffer s) = EVP_MAX_MD_SIZE" by blast
  show ?thesis
  proof (cases "pid' \<le> MAX_PID \<and> micros \<le> MAX_MICROS_OFFSET \<and> uuid \<noteq> None")
    case False
    then have "Some a = None \<or> pid' > MAX_PID \<or> micros > MAX_MICROS_OFFSET \<or> uuid = None"
      by (auto simp: not_le)
    from cpid_make_uuid_invalid [OF this] call have "w' = w" by simp
    then show ?thesis
      using s len by simp
  next
    case True
    then obtain u where u: "uuid = Some u" by auto
    note live = cpid_make_uuid_live [OF s h conjunct1 [OF True]
        conjunct1 [OF conjunct2 [OF True]]]
    let ?content = "process_specific_information (digest_input_content s) pid' secs micros"
    let ?d = "take EVP_MAX_MD_SIZE (digest_fn P ''SHA256'' (bytes_of_digest_input_content ?content))"
    have lens: "length (?d @ drop (length ?d) (digest_destination_buffer s)) = EVP_MAX_MD_SIZE"
      using len by (simp add: EVP_MAX_MD_SIZE_def)
    from call [unfolded u live] show ?thesis
      using h(1,2) len lens
      by (auto simp: Let_def process_specific_information_def split: if_splits)
  qed
qed

lemma cpid_make_uuid_keeps_handle:
  assumes ready: "fully_initialized w a" and s: "handles w a = Some s"
    and call: "cpid_make_uuid P MAX_PID (Some a) pid' secs micros uuid w = Inr (rc, uuid', w')"
  shows "fully_initialized w' a \<and>
         (\<exists>s'. handles w' a = Some s' \<and>
            constant_fields (digest_input_content s') = constant_fields (digest_input_content s))"
proof -
  from cpid_make_uuid_world [OF ready s call] obtain s' where
    s': "handles w' a = Some s'"
    and eq: "s' = s\<lparr>digest_destination_buffer := digest_destination_buffer s',
                   digest_input_content := (digest_input_content s)
                     \<lparr>process_creation_time := process_creation_time (digest_input_content s'),
                      pid := pid (digest_input_content s')\<rparr>\<rparr>"
    and len: "length (digest_destination_buffer s') = EVP_MAX_MD_SIZE"
    and ctxs: "\<forall>c. (md_ctxs w' c = None) = (md_ctxs w c = None)"
    and w': "w' = w\<lparr>handles := handles w', md_ctxs := md_ctxs w'\<rparr>"
    by blast
  have ptrs: "digest_context s' = digest_context s" "sha256 s' = sha256 s"
    by (subst eq, simp)+
  have const: "constant_fields (digest_input_content s') = constant_fields (digest_input_content s)"
    by (subst eq) (simp add: constant_fields_def)
  have mds: "mds w' = mds w"
    by (subst w') simp
  from fully_initializedD [OF ready s] obtain c st m where
    h: "digest_context s = Some c" "md_ctxs w c = Some st" "sha256 s = Some m"
       "mds w m = Some ''SHA256''" by blast
  have "md_ctxs w' c \<noteq> None"
    using ctxs h(2) by simp
  then have "fully_initialized w' a"
    using s' ptrs h len mds by (simp add: fully_initialized_def)
  with s' const show ?thesis by blast
qed

lemma process_specific_information_cong:
  "constant_fields c1 = constant_fields c2 \<Longrightarrow>
     process_specific_information c1 pid' secs micros =
     process_specific_information c2 pid' secs micros"
  by (cases c1, cases c2) (simp add: constant_fields_def process_specific_information_def)

text \<open>
  C4. The identifier a successful call returns is a function of the constant fields of
  the handle's record, of the three arguments and of the SHA256 function alone: two
  successful calls with the same arguments, on handles with the same constant fields,
  return the same 16 bytes, whatever else the two worlds, the scratch buffers, the digest
  contexts and the output buffers hold. In particular a call that follows a successful
  call on the same handle with the same arguments, when it succeeds, returns the same
  bytes.
\<close>

theorem cpid_make_uuid_deterministic:
  assumes ready: "fully_initialized w1 a1" and s1: "handles w1 a1 = Some s1"
    and sha: "digest_fn P2 ''SHA256'' = digest_fn P1 ''SHA256''"
    and call1: "cpid_make_uuid P1 MAX_PID (Some a1) pid' secs micros u1 w1 =
                  Inr (RETURN_SUCCESS, out1, w1')"
  shows "(fully_initialized w2 a2 \<and> handles w2 a2 = Some s2 \<and>
          constant_fields (digest_input_content s2) = constant_fields (digest_input_content s1) \<and>
          cpid_make_uuid P2 MAX_PID2 (Some a2) pid' secs micros u2 w2 =
            Inr (RETURN_SUCCESS, out2, w2') \<longrightarrow> out2 = out1) \<and>
         (cpid_make_uuid P2 MAX_PID (Some a1) pid' secs micros u3 w1' =
            Inr (RETURN_SUCCESS, out3, w3) \<longrightarrow> out3 = out1)"
proof (intro conjI impI)
  note first = cpid_make_uuid_success [OF ready s1 call1]
  assume h: "fully_initialized w2 a2 \<and> handles w2 a2 = Some s2 \<and>
    constant_fields (digest_input_content s2) = constant_fields (digest_input_content s1) \<and>
    cpid_make_uuid P2 MAX_PID2 (Some a2) pid' secs micros u2 w2 =
      Inr (RETURN_SUCCESS, out2, w2')"
  then have "process_specific_information (digest_input_content s2) pid' secs micros =
      process_specific_information (digest_input_content s1) pid' secs micros"
    by (intro process_specific_information_cong) simp
  with cpid_make_uuid_success [of w2 a2 s2 P2 MAX_PID2 pid' secs micros u2 out2 w2'] h first sha
  show "out2 = out1" by simp
next
  note first = cpid_make_uuid_success [OF ready s1 call1]
  assume call3: "cpid_make_uuid P2 MAX_PID (Some a1) pid' secs micros u3 w1' =
    Inr (RETURN_SUCCESS, out3, w3)"
  from cpid_make_uuid_keeps_handle [OF ready s1 call1] obtain s' where
    ready': "fully_initialized w1' a1" and s': "handles w1' a1 = Some s'"
    and const: "constant_fields (digest_input_content s') =
      constant_fields (digest_input_content s1)" by blast
  from const have "process_specific_information (digest_input_content s') pid' secs micros =
      process_specific_information (digest_input_content s1) pid' secs micros"
    by (rule process_specific_information_cong)
  with cpid_make_uuid_success [OF ready' s' call3] first sha
  show "out3 = out1" by simp
qed

theorem cpid_make_uuid_deterministic_witness:
  "fully_initialized example_world 0 \<and> handles example_world 0 = Some example_struct \<and>
   (\<exists>w1 out3 w3.
      cpid_make_uuid example_platform 99999 (Some 0) 4321 1700000000 500000
          (Some (bytes16_of [])) example_world =
        Inr (RETURN_SUCCESS,
             Some (bytes16_of [0, 0, 0, 0, 0, 0, 0x80, 0xE1, 0x80, 0, 0, 0, 0, 0x07, 0xA1, 0x20]),
             w1) \<and>
      cpid_make_uuid example_platform 99999 (Some 0) 4321 1700000000 500000
          (Some (bytes16_of [])) w1 =
        Inr (RETURN_SUCCESS, out3, w3) \<and>
      out3 = Some (bytes16_of [0, 0, 0, 0, 0, 0, 0x80, 0xE1, 0x80, 0, 0, 0, 0, 0x07, 0xA1, 0x20]))"
proof -
  from example_make_uuid [of "bytes16_of []"] obtain w1 where
    run1: "cpid_make_uuid example_platform 99999 (Some 0) 4321 1700000000 500000
          (Some (bytes16_of [])) example_world =
        Inr (RETURN_SUCCESS,
             Some (bytes16_of [0, 0, 0, 0, 0, 0, 0x80, 0xE1, 0x80, 0, 0, 0, 0, 0x07, 0xA1, 0x20]),
             w1)" ..
  from cpid_make_uuid_keeps_handle [OF fully_initialized_example_world handles_example_world run1]
  obtain s' where ready': "fully_initialized w1 0" and s': "handles w1 0 = Some s'" by blast
  have "length (digest_fn example_platform ''SHA256'' (bytes_of_digest_input_content
      (process_specific_information (digest_input_content s') 4321 1700000000 500000))) = 32"
    by (simp add: example_platform_def length_bytes_of_digest_input_content)
  from cpid_make_uuid_succeeds [OF ready' s' example_arguments example_library this,
      of "bytes16_of []"]
  obtain out3 w3 where
    run2: "cpid_make_uuid example_platform 99999 (Some 0) 4321 1700000000 500000
          (Some (bytes16_of [])) w1 = Inr (RETURN_SUCCESS, out3, w3)" by blast
  from cpid_make_uuid_deterministic [OF fully_initialized_example_world handles_example_world
      refl run1, THEN conjunct2, rule_format, OF run2]
  have "out3 = Some (bytes16_of [0, 0, 0, 0, 0, 0, 0x80, 0xE1, 0x80, 0, 0, 0, 0, 0x07, 0xA1, 0x20])" .
  with run1 run2 fully_initialized_example_world handles_example_world
  show ?thesis by blast
qed

text \<open>
  C8. A call on an allocated handle that returns leaves in the handle's block everything
  but the scratch buffer and the two process-specific fields of the record as it was: the
  serial number, the hardware UUID, the two boot-time creation times and the two OpenSSL
  pointers are unchanged, and so is every other block.
\<close>

theorem cpid_make_uuid_frame:
  assumes s: "handles w a = Some s"
    and call: "cpid_make_uuid P MAX_PID (Some a) pid' secs micros uuid w = Inr (rc, uuid', w')"
  shows "\<exists>s'. handles w' a = Some s' \<and>
           s' = s\<lparr>digest_destination_buffer := digest_destination_buffer s',
                  digest_input_content := (digest_input_content s)
                    \<lparr>process_creation_time := process_creation_time (digest_input_content s'),
                     pid := pid (digest_input_content s')\<rparr>\<rparr> \<and>
           serial_number (digest_input_content s') = serial_number (digest_input_content s) \<and>
           hardware_uuid (digest_input_content s') = hardware_uuid (digest_input_content s) \<and>
           kernel_task_creation_time (digest_input_content s') =
             kernel_task_creation_time (digest_input_content s) \<and>
           launchd_creation_time (digest_input_content s') =
             launchd_creation_time (digest_input_content s) \<and>
           (\<forall>b. b \<noteq> a \<longrightarrow> handles w' b = handles w b)"
  using assms
  by (auto simp: cpid_make_uuid_def EVP_DigestInit_ex2_def EVP_DigestUpdate_def
      EVP_DigestFinal_ex_def Let_def process_specific_information_def
      split: option.splits if_splits sum.splits prod.splits)

theorem cpid_make_uuid_frame_witness:
  "handles example_world 0 = Some example_struct \<and>
   (\<exists>uuid' w' s'.
      cpid_make_uuid example_platform 99999 (Some 0) 4321 1700000000 500000
          (Some (bytes16_of [])) example_world =
        Inr (RETURN_SUCCESS, uuid', w') \<and>
      handles w' 0 = Some s' \<and>
      serial_number (digest_input_content s') = bytes16_of [0x41, 0x42, 0x43, 0x31, 0x32, 0x33] \<and>
      hardware_uuid (digest_input_content s') = bytes16_of (replicate 16 0x55) \<and>
      kernel_task_creation_time (digest_input_content s') =
        \<lparr>unix_epoch_seconds = 1, micros_offset = 0\<rparr> \<and>
      launchd_creation_time (digest_input_content s') =
        \<lparr>unix_epoch_seconds = 2, micros_offset = 0\<rparr>)"
proof -
  from example_make_uuid [of "bytes16_of []"] obtain uuid' w' where
    run: "cpid_make_uuid example_platform 99999 (Some 0) 4321 1700000000 500000
          (Some (bytes16_of [])) example_world = Inr (RETURN_SUCCESS, uuid', w')" by blast
  from cpid_make_uuid_frame [OF handles_example_world run] obtain s' where
    "handles w' 0 = Some s'"
    "serial_number (digest_input_content s') =
       serial_number (digest_input_content example_struct)"
    "hardware_uuid (digest_input_content s') =
       hardware_uuid (digest_input_content example_struct)"
    "kernel_task_creation_time (digest_input_content s') =
       kernel_task_creation_time (digest_input_content example_struct)"
    "launchd_creation_time (digest_input_content s') =
       launchd_creation_time (digest_input_content example_struct)"
    by blast
  then have "handles w' 0 = Some s' \<and>
      serial_number (digest_input_content s') = bytes16_of [0x41, 0x42, 0x43, 0x31, 0x32, 0x33] \<and>
      hardware_uuid (digest_input_content s') = bytes16_of (replicate 16 0x55) \<and>
      kernel_task_creation_time (digest_input_content s') =
        \<lparr>unix_epoch_seconds = 1, micros_offset = 0\<rparr> \<and>
      launchd_creation_time (digest_input_content s') =
        \<lparr>unix_epoch_seconds = 2, micros_offset = 0\<rparr>"
    by (simp add: example_struct_def)
  with run handles_example_world show ?thesis by blast
qed

section \<open>\<^verbatim>\<open>cpid_get_uuid\<close> and \<^verbatim>\<open>cpid_get_uuid_string\<close>\<close>

lemma cpid_get_process_creation_time_out_of_range:
  "pid' > MAX_PID \<Longrightarrow>
     cpid_get_process_creation_time P MAX_PID pid' t w = (RETURN_ERROR, t, w)"
  by (simp add: cpid_get_process_creation_time_def)

lemma cpid_get_uuid_out_of_range:
  "pid' > MAX_PID \<Longrightarrow>
     cpid_get_uuid P MAX_PID library_handle pid' uuid w = Inr (RETURN_ERROR, uuid, w)"
  by (simp add: cpid_get_uuid_def cpid_get_process_creation_time_out_of_range)

text \<open>
  C10. For a pid above \<^verbatim>\<open>MAX_PID\<close> the lookup of the creation time fails at its first
  check, so \<^verbatim>\<open>cpid_get_uuid\<close> and \<^verbatim>\<open>cpid_get_uuid_string\<close> return \<^verbatim>\<open>RETURN_ERROR\<close> with the
  world as it was: \<^verbatim>\<open>sysctl\<close> was not called, no digest context was touched, and the
  output buffer is unwritten.
\<close>

theorem cpid_get_uuid_pid_out_of_range:
  assumes "pid' > MAX_PID"
  shows "cpid_get_process_creation_time P MAX_PID pid' t w = (RETURN_ERROR, t, w) \<and>
         cpid_get_uuid P MAX_PID library_handle pid' uuid w = Inr (RETURN_ERROR, uuid, w) \<and>
         cpid_get_uuid_string P MAX_PID library_handle pid' uuid_string w =
           Inr (RETURN_ERROR, uuid_string, w)"
  using assms
  by (simp add: cpid_get_uuid_string_def cpid_get_uuid_out_of_range
      cpid_get_process_creation_time_out_of_range)

theorem cpid_get_uuid_pid_out_of_range_witness:
  "(100000 :: uint32_t) > 99999 \<and>
   cpid_get_uuid example_platform 99999 (Some 0) 100000 (Some (bytes16_of [])) example_world =
     Inr (RETURN_ERROR, Some (bytes16_of []), example_world) \<and>
   cpid_get_uuid_string example_platform 99999 (Some 0) 100000 (Some []) example_world =
     Inr (RETURN_ERROR, Some [], example_world) \<and>
   sysctl_calls example_world = 2"
proof -
  have large: "(100000 :: uint32_t) > 99999" by simp
  from cpid_get_uuid_pid_out_of_range [OF large] large
  show ?thesis by (simp add: example_world_def)
qed

subsection \<open>The text of an identifier\<close>

lemma tolower_loop_from:
  "length t = sizeof_uuid_string_t \<Longrightarrow> i \<le> sizeof_uuid_string_t \<Longrightarrow>
     tolower_loop i t = take i t @ map tolower (drop i t)"
proof (induction i t rule: tolower_loop.induct)
  case (1 i uuid_string)
  show ?case
  proof (cases "i < sizeof_uuid_string_t")
    case True
    with 1 have "tolower_loop (Suc i) (uuid_string[i := tolower (uuid_string ! i)]) =
        take (Suc i) (uuid_string[i := tolower (uuid_string ! i)]) @
        map tolower (drop (Suc i) (uuid_string[i := tolower (uuid_string ! i)]))"
      by simp
    also have "\<dots> = take i uuid_string @ map tolower (drop i uuid_string)"
      using True 1(2)
      by (simp add: take_Suc_conv_app_nth Cons_nth_drop_Suc [symmetric])
    finally show ?thesis
      using True by (subst tolower_loop.simps) simp
  next
    case False
    with 1 show ?thesis
      by (subst tolower_loop.simps) simp
  qed
qed

lemma tolower_loop_map:
  "length t = sizeof_uuid_string_t \<Longrightarrow> tolower_loop 0 t = map tolower t"
  by (simp add: tolower_loop_from)

lemma map_tolower_digits:
  "map tolower ''0123456789ABCDEF'' = ''0123456789abcdef''"
  "map tolower ''0123456789abcdef'' = ''0123456789abcdef''"
  by (simp_all add: tolower_def char_of_eq_iff)

lemma tolower_hex_digit: "n < 16 \<Longrightarrow> tolower (hex_digit upper n) = hex_digit False n"
proof -
  assume n: "n < 16"
  let ?digits = "if upper then ''0123456789ABCDEF'' else ''0123456789abcdef''"
  have "tolower (?digits ! n) = map tolower ?digits ! n"
    using n by (simp add: nth_map)
  also have "map tolower ?digits = ''0123456789abcdef''"
    by (simp add: map_tolower_digits del: list.map)
  finally show ?thesis
    by (simp add: hex_digit_def)
qed

lemma lower_hex_hex_digit: "n < 16 \<Longrightarrow> lower_hex (hex_digit False n)"
  unfolding hex_digit_def lower_hex_def by (simp del: set_simps)

lemma high_nibble_less: "unat (drop_bit 4 (b :: byte)) < 16"
proof -
  have "unat (drop_bit 4 b) = unat b div 16"
    by (simp add: drop_bit_eq_div unat_div)
  moreover have "unat b < 256"
    using unsigned_less [of b, where ?'a = nat] by simp
  ultimately show ?thesis by simp
qed

lemma low_nibble_less: "unat ((b :: byte) AND 0x0F) < 16"
proof -
  have "unat (b AND 0x0F) \<le> unat (0x0F :: byte)"
    by (rule word_and_le1 [THEN word_le_nat_alt [THEN iffD1]])
  then show ?thesis by simp
qed

lemma map_tolower_hex_byte: "map tolower (hex_byte upper b) = hex_byte False b"
  by (simp add: hex_byte_def tolower_hex_digit high_nibble_less low_nibble_less)

lemma map_tolower_hex_bytes: "map tolower (hex_bytes upper bs) = hex_bytes False bs"
  by (induction bs) (simp_all add: hex_bytes_def map_tolower_hex_byte)

lemma length_hex_bytes: "length (hex_bytes upper bs) = 2 * length bs"
  by (induction bs) (simp_all add: hex_bytes_def hex_byte_def)

lemma list_all_lower_hex_bytes: "list_all lower_hex (hex_bytes False bs)"
  by (induction bs)
    (simp_all add: hex_bytes_def hex_byte_def lower_hex_hex_digit high_nibble_less low_nibble_less)

lemma tolower_hyphen: "tolower CHR ''-'' = CHR ''-''" and tolower_nul: "tolower (CHR 0x00) = CHR 0x00"
  by (simp_all add: tolower_def)

lemma map_tolower_uuid_text: "map tolower (uuid_text upper u) = uuid_text False u"
  by (simp add: uuid_text_def Let_def map_tolower_hex_bytes tolower_hyphen)

lemma length_uuid_text: "length (uuid_text upper u) = 36"
  by (simp add: uuid_text_def Let_def length_hex_bytes length_bytes_of)

lemma tolower_loop_uuid_unparse:
  "tolower_loop 0 (uuid_unparse P u) = uuid_text False u @ [CHR 0x00]"
  by (simp add: tolower_loop_map uuid_unparse_def length_uuid_text sizeof_uuid_string_t_def
      map_tolower_uuid_text tolower_nul)

lemma uuid_grammar_uuid_text: "uuid_grammar (uuid_text False u)"
proof -
  let ?a = "hex_bytes False (take 4 (bytes_of u))"
  let ?b = "hex_bytes False (take 2 (drop 4 (bytes_of u)))"
  let ?c = "hex_bytes False (take 2 (drop 6 (bytes_of u)))"
  let ?d = "hex_bytes False (take 2 (drop 8 (bytes_of u)))"
  let ?e = "hex_bytes False (drop 10 (bytes_of u))"
  have len: "length ?a = 8" "length ?b = 4" "length ?c = 4" "length ?d = 4" "length ?e = 12"
    by (simp_all add: length_hex_bytes length_bytes_of)
  have shape: "uuid_text False u = ?a @ CHR ''-'' # ?b @ CHR ''-'' # ?c @ CHR ''-'' # ?d @ CHR ''-'' # ?e"
    by (simp add: uuid_text_def Let_def)
  show ?thesis
    unfolding uuid_grammar_def shape
    using len by (simp add: list_all_lower_hex_bytes nth_append)
qed

text \<open>What the caller's buffer held matters only for what an unsuccessful call leaves
  in it.\<close>

lemma cpid_make_uuid_buffer:
  "cpid_make_uuid P MAX_PID library_handle pid' secs micros (Some b) w =
     (case cpid_make_uuid P MAX_PID library_handle pid' secs micros (Some b') w of
        Inl f \<Rightarrow> Inl f
      | Inr (rc, uuid', w') \<Rightarrow>
          Inr (rc, if rc = RETURN_SUCCESS then uuid' else Some b, w'))"
  by (simp add: cpid_make_uuid_def Let_def
      split: option.splits sum.splits prod.splits)

lemma cpid_get_uuid_buffer:
  "cpid_get_uuid P MAX_PID library_handle pid' (Some b) w =
     (case cpid_get_uuid P MAX_PID library_handle pid' (Some b') w of
        Inl f \<Rightarrow> Inl f
      | Inr (rc, uuid', w') \<Rightarrow>
          Inr (rc, if rc = RETURN_SUCCESS then uuid' else Some b, w'))"
  unfolding cpid_get_uuid_def
  by (subst cpid_make_uuid_buffer [where b = b and b' = b'])
    (simp split: option.splits sum.splits prod.splits return_code.splits)

lemma cpid_get_uuid_success_Some:
  "cpid_get_uuid P MAX_PID library_handle pid' uuid w = Inr (RETURN_SUCCESS, uuid', w') \<Longrightarrow>
     uuid' \<noteq> None"
  by (auto simp: cpid_get_uuid_def cpid_make_uuid_def Let_def
      split: option.splits sum.splits prod.splits return_code.splits if_splits)

lemma cpid_get_uuid_string_of_get_uuid:
  assumes "uuid_string \<noteq> None"
    and "cpid_get_uuid P MAX_PID library_handle pid' (Some b) w = Inr (rc, uuid', w')"
  shows "cpid_get_uuid_string P MAX_PID library_handle pid' uuid_string w =
     (case (rc, uuid') of
        (RETURN_SUCCESS, Some u) \<Rightarrow> Inr (RETURN_SUCCESS, Some (uuid_text False u @ [CHR 0x00]), w')
      | _ \<Rightarrow> Inr (RETURN_ERROR, uuid_string, w'))"
proof (cases "library_handle = None")
  case True
  with assms show ?thesis
    by (auto simp: cpid_get_uuid_string_def cpid_get_uuid_def)
next
  case False
  from assms(2) have "cpid_get_uuid P MAX_PID library_handle pid' (Some (bytes16_of [])) w =
      Inr (rc, if rc = RETURN_SUCCESS then uuid' else Some (bytes16_of []), w')"
    by (subst cpid_get_uuid_buffer [where b' = b]) simp
  moreover from False assms(1) obtain a str where
    "library_handle = Some a" "uuid_string = Some str" by auto
  ultimately show ?thesis
    by (simp add: cpid_get_uuid_string_def tolower_loop_uuid_unparse
        split: return_code.splits option.splits)
qed

lemma example_creation_time:
  "cpid_get_process_creation_time example_platform 99999 4321 (Some t) example_world =
     (RETURN_SUCCESS, Some \<lparr>unix_epoch_seconds = 4322, micros_offset = 0\<rparr>,
      example_world\<lparr>sysctl_calls := 3\<rparr>)"
  by (simp add: cpid_get_process_creation_time_def example_platform_def example_world_def)

lemma example_get_uuid:
  "\<exists>w'. cpid_get_uuid example_platform 99999 (Some 0) 4321 (Some b) example_world =
        Inr (RETURN_SUCCESS,
             Some (bytes16_of [0, 0, 0, 0, 0, 0, 0x80, 0xE1, 0x80, 0, 0, 0, 0, 0, 0, 0]),
             w')"
proof -
  let ?w = "example_world\<lparr>sysctl_calls := 3\<rparr>"
  have ready: "fully_initialized ?w 0" and s: "handles ?w 0 = Some example_struct"
    by (simp_all add: fully_initialized_def example_world_def example_struct_def
        EVP_MAX_MD_SIZE_def)
  have zero: "(0 :: uint32_t) \<le> MAX_MICROS_OFFSET" by simp
  have digest: "digest_fn example_platform ''SHA256''
      (bytes_of_digest_input_content
        (process_specific_information (digest_input_content example_struct) 4321 4322 0)) =
      [0, 0, 0, 0, 0, 0, 0x10, 0xE1, 0, 0, 0, 0, 0, 0, 0, 0,
       0, 0, 0, 0, 0, 0, 0x10, 0xE2, 0, 0, 0, 0, 0, 0, 0, 0]"
    by (simp add: example_platform_def example_struct_def process_specific_information_def
        bytes_of_digest_input_content_def bytes_of_process_creation_time_def
        bytes_of_uint64_def upt_rec drop_bit_eq_div length_bytes_of)
  have ident: "identifier_of_digest
      [0, 0, 0, 0, 0, 0, 0x10, 0xE1, 0, 0, 0, 0, 0, 0, 0, 0,
       0, 0, 0, 0, 0, 0, 0x10, 0xE2, 0, 0, 0, 0, 0, 0, 0, 0] =
      bytes16_of [0, 0, 0, 0, 0, 0, 0x80, 0xE1, 0x80, 0, 0, 0, 0, 0, 0, 0]"
    by (simp add: identifier_of_digest_def set_version_and_variant_def)
  from cpid_make_uuid_succeeds [OF ready s example_arguments(1) zero example_library,
      where secs = 4322 and u = b]
  obtain w' where "cpid_make_uuid example_platform 99999 (Some 0) 4321 4322 0 (Some b) ?w =
      Inr (RETURN_SUCCESS,
           Some (bytes16_of [0, 0, 0, 0, 0, 0, 0x80, 0xE1, 0x80, 0, 0, 0, 0, 0, 0, 0]), w')"
    unfolding digest ident by auto
  then show ?thesis
    by (simp add: cpid_get_uuid_def example_creation_time)
qed

lemma example_uuid_text:
  "uuid_text False (bytes16_of [0, 0, 0, 0, 0, 0, 0x80, 0xE1, 0x80, 0, 0, 0, 0, 0, 0, 0]) =
     ''00000000-0000-80e1-8000-000000000000''"
  by (simp add: uuid_text_def bytes_of_bytes16_of hex_bytes_def hex_byte_def hex_digit_def
      drop_bit_eq_div)

text \<open>
  C9. When \<^verbatim>\<open>cpid_get_uuid_string\<close> succeeds, \<^verbatim>\<open>cpid_get_uuid\<close> has succeeded with some 16
  bytes, and the string written is their text in the form 8-4-4-4-12 with lowercase
  digits, which matches the grammar, followed by the terminator; when the string buffer is
  not null and \<^verbatim>\<open>cpid_get_uuid\<close> succeeds, so does \<^verbatim>\<open>cpid_get_uuid_string\<close>; and when
  \<^verbatim>\<open>cpid_get_uuid\<close> returns \<^verbatim>\<open>RETURN_ERROR\<close>, so does \<^verbatim>\<open>cpid_get_uuid_string\<close>, and the
  string buffer is left as it was.
\<close>

theorem cpid_get_uuid_string_lowercase:
  "(cpid_get_uuid_string P MAX_PID library_handle pid' uuid_string w =
      Inr (RETURN_SUCCESS, uuid_string', w') \<longrightarrow>
    (\<exists>u. cpid_get_uuid P MAX_PID library_handle pid' (Some b) w =
            Inr (RETURN_SUCCESS, Some u, w') \<and>
          uuid_string' = Some (uuid_text False u @ [CHR 0x00]) \<and>
          uuid_grammar (uuid_text False u))) \<and>
   (uuid_string \<noteq> None \<and>
    cpid_get_uuid P MAX_PID library_handle pid' (Some b) w = Inr (RETURN_SUCCESS, Some u, w') \<longrightarrow>
      cpid_get_uuid_string P MAX_PID library_handle pid' uuid_string w =
        Inr (RETURN_SUCCESS, Some (uuid_text False u @ [CHR 0x00]), w') \<and>
      uuid_grammar (uuid_text False u)) \<and>
   (uuid_string \<noteq> None \<and>
    cpid_get_uuid P MAX_PID library_handle pid' (Some b) w = Inr (RETURN_ERROR, uuid', w') \<longrightarrow>
      cpid_get_uuid_string P MAX_PID library_handle pid' uuid_string w =
        Inr (RETURN_ERROR, uuid_string, w'))"
proof (intro conjI impI)
  assume ok: "cpid_get_uuid_string P MAX_PID library_handle pid' uuid_string w =
      Inr (RETURN_SUCCESS, uuid_string', w')"
  then have nonnull: "uuid_string \<noteq> None" "library_handle \<noteq> None"
    by (auto simp: cpid_get_uuid_string_def split: if_splits)
  from ok nonnull obtain rc0 uuid0 w0 where
    local: "cpid_get_uuid P MAX_PID library_handle pid' (Some (bytes16_of [])) w =
      Inr (rc0, uuid0, w0)"
    by (auto simp: cpid_get_uuid_string_def split: sum.splits)
  from ok cpid_get_uuid_string_of_get_uuid [OF nonnull(1) local]
  obtain u where "rc0 = RETURN_SUCCESS" "uuid0 = Some u" "w0 = w'"
    "uuid_string' = Some (uuid_text False u @ [CHR 0x00])"
    by (auto split: return_code.splits option.splits)
  with local have "cpid_get_uuid P MAX_PID library_handle pid' (Some b) w =
      Inr (RETURN_SUCCESS, Some u, w')"
    by (subst cpid_get_uuid_buffer [where b' = "bytes16_of []"]) simp
  with \<open>uuid_string' = Some (uuid_text False u @ [CHR 0x00])\<close>
  show "\<exists>u. cpid_get_uuid P MAX_PID library_handle pid' (Some b) w =
            Inr (RETURN_SUCCESS, Some u, w') \<and>
          uuid_string' = Some (uuid_text False u @ [CHR 0x00]) \<and>
          uuid_grammar (uuid_text False u)"
    using uuid_grammar_uuid_text by blast
next
  assume "uuid_string \<noteq> None \<and>
    cpid_get_uuid P MAX_PID library_handle pid' (Some b) w = Inr (RETURN_SUCCESS, Some u, w')"
  then show "cpid_get_uuid_string P MAX_PID library_handle pid' uuid_string w =
      Inr (RETURN_SUCCESS, Some (uuid_text False u @ [CHR 0x00]), w')"
    using cpid_get_uuid_string_of_get_uuid [of uuid_string P MAX_PID library_handle pid' b w
        RETURN_SUCCESS "Some u" w']
    by simp
next
  show "uuid_grammar (uuid_text False u)"
    by (rule uuid_grammar_uuid_text)
next
  assume "uuid_string \<noteq> None \<and>
    cpid_get_uuid P MAX_PID library_handle pid' (Some b) w = Inr (RETURN_ERROR, uuid', w')"
  then show "cpid_get_uuid_string P MAX_PID library_handle pid' uuid_string w =
      Inr (RETURN_ERROR, uuid_string, w')"
    using cpid_get_uuid_string_of_get_uuid [of uuid_string P MAX_PID library_handle pid' b w
        RETURN_ERROR uuid' w']
    by simp
qed

theorem cpid_get_uuid_string_lowercase_witness:
  "\<exists>w'. cpid_get_uuid example_platform 99999 (Some 0) 4321 (Some (bytes16_of [])) example_world =
          Inr (RETURN_SUCCESS,
               Some (bytes16_of [0, 0, 0, 0, 0, 0, 0x80, 0xE1, 0x80, 0, 0, 0, 0, 0, 0, 0]), w') \<and>
        cpid_get_uuid_string example_platform 99999 (Some 0) 4321 (Some []) example_world =
          Inr (RETURN_SUCCESS, Some (''00000000-0000-80e1-8000-000000000000'' @ [CHR 0x00]), w') \<and>
        uuid_grammar ''00000000-0000-80e1-8000-000000000000''"
proof -
  from example_get_uuid [of "bytes16_of []"] obtain w' where
    run: "cpid_get_uuid example_platform 99999 (Some 0) 4321 (Some (bytes16_of [])) example_world =
          Inr (RETURN_SUCCESS,
               Some (bytes16_of [0, 0, 0, 0, 0, 0, 0x80, 0xE1, 0x80, 0, 0, 0, 0, 0, 0, 0]), w')" ..
  have nonnull: "Some ([] :: string) \<noteq> None" by simp
  from cpid_get_uuid_string_lowercase [THEN conjunct2, THEN conjunct1, rule_format,
      OF conjI [OF nonnull run]]
  have "cpid_get_uuid_string example_platform 99999 (Some 0) 4321 (Some []) example_world =
          Inr (RETURN_SUCCESS, Some (''00000000-0000-80e1-8000-000000000000'' @ [CHR 0x00]), w') \<and>
        uuid_grammar ''00000000-0000-80e1-8000-000000000000''"
    unfolding example_uuid_text .
  with run show ?thesis by blast
qed

section \<open>\<^verbatim>\<open>cpid_initialize\<close> and \<^verbatim>\<open>cpid_finalize\<close>\<close>

text \<open>The three lookups leave the world as it was, up to the count of \<^verbatim>\<open>sysctl\<close> calls,
  and their return codes depend on the platform only.\<close>

lemma cpid_get_serial_number_world:
  "snd (snd (cpid_get_serial_number P sn n w)) = w"
  by (simp add: cpid_get_serial_number_def Let_def split: option.splits prod.splits)

lemma cpid_get_serial_number_rc:
  "fst (cpid_get_serial_number P (Some b) n w) = fst (cpid_get_serial_number P (Some b') n w')"
  by (simp add: cpid_get_serial_number_def CFStringGetCString_def Let_def
      split: option.splits prod.splits)

lemma cpid_get_hardware_uuid_world:
  "snd (snd (cpid_get_hardware_uuid P hu w)) = w"
  by (simp add: cpid_get_hardware_uuid_def Let_def split: option.splits prod.splits)

lemma cpid_get_hardware_uuid_rc:
  "fst (cpid_get_hardware_uuid P (Some b) w) = fst (cpid_get_hardware_uuid P (Some b') w')"
  by (simp add: cpid_get_hardware_uuid_def Let_def split: option.splits prod.splits)

lemma cpid_get_process_creation_time_world:
  "\<exists>n. snd (snd (cpid_get_process_creation_time P MAX_PID p t w)) = w\<lparr>sysctl_calls := n\<rparr>"
proof (cases "snd (snd (cpid_get_process_creation_time P MAX_PID p t w)) = w")
  case True
  then have "snd (snd (cpid_get_process_creation_time P MAX_PID p t w)) =
      w\<lparr>sysctl_calls := sysctl_calls w\<rparr>" by simp
  then show ?thesis ..
next
  case False
  then have "snd (snd (cpid_get_process_creation_time P MAX_PID p t w)) =
      w\<lparr>sysctl_calls := Suc (sysctl_calls w)\<rparr>"
    by (simp add: cpid_get_process_creation_time_def Let_def split: if_splits prod.splits)
  then show ?thesis ..
qed

lemma cpid_get_process_creation_time_rc:
  "fst (cpid_get_process_creation_time P MAX_PID p (Some t) w) =
   fst (cpid_get_process_creation_time P MAX_PID p (Some t') w')"
  by (simp add: cpid_get_process_creation_time_def Let_def split: prod.splits)

text \<open>Each lookup, as a function of the world: the return code and the value written do
  not depend on it.\<close>

lemma cpid_get_serial_number_total:
  "\<exists>rc v. \<forall>w. cpid_get_serial_number P (Some b) n w = (rc, Some v, w)"
proof -
  fix w0
  have form: "cpid_get_serial_number P (Some b) n w =
      (fst (cpid_get_serial_number P (Some b) n w0),
       fst (snd (cpid_get_serial_number P (Some b) n w0)), w)" for w
    by (simp add: cpid_get_serial_number_def CFStringGetCString_def Let_def
        split: option.splits prod.splits)
  have "fst (snd (cpid_get_serial_number P (Some b) n w0)) \<noteq> None"
    by (simp add: cpid_get_serial_number_def CFStringGetCString_def Let_def
        split: option.splits prod.splits)
  then obtain v where "fst (snd (cpid_get_serial_number P (Some b) n w0)) = Some v" by auto
  with form show ?thesis by metis
qed

lemma cpid_get_hardware_uuid_total:
  "\<exists>rc v. \<forall>w. cpid_get_hardware_uuid P (Some b) w = (rc, Some v, w)"
proof -
  fix w0
  have form: "cpid_get_hardware_uuid P (Some b) w =
      (fst (cpid_get_hardware_uuid P (Some b) w0),
       fst (snd (cpid_get_hardware_uuid P (Some b) w0)), w)" for w
    by (simp add: cpid_get_hardware_uuid_def Let_def split: option.splits prod.splits)
  have "fst (snd (cpid_get_hardware_uuid P (Some b) w0)) \<noteq> None"
    by (simp add: cpid_get_hardware_uuid_def Let_def split: option.splits prod.splits)
  then obtain v where "fst (snd (cpid_get_hardware_uuid P (Some b) w0)) = Some v" by auto
  with form show ?thesis by metis
qed

lemma cpid_get_process_creation_time_total:
  "\<exists>rc v. \<forall>w. cpid_get_process_creation_time P MAX_PID p (Some t) w =
     (rc, Some v, if p > MAX_PID then w else w\<lparr>sysctl_calls := Suc (sysctl_calls w)\<rparr>)"
proof -
  fix w0
  have form: "cpid_get_process_creation_time P MAX_PID p (Some t) w =
      (fst (cpid_get_process_creation_time P MAX_PID p (Some t) w0),
       fst (snd (cpid_get_process_creation_time P MAX_PID p (Some t) w0)),
       if p > MAX_PID then w else w\<lparr>sysctl_calls := Suc (sysctl_calls w)\<rparr>)" for w
    by (simp add: cpid_get_process_creation_time_def Let_def split: prod.splits)
  have "fst (snd (cpid_get_process_creation_time P MAX_PID p (Some t) w0)) \<noteq> None"
    by (simp add: cpid_get_process_creation_time_def Let_def split: prod.splits)
  then obtain v where
    "fst (snd (cpid_get_process_creation_time P MAX_PID p (Some t) w0)) = Some v" by auto
  with form show ?thesis by metis
qed

text \<open>The block of \<^verbatim>\<open>cpid_initialize\<close>: what it allocates, and when it succeeds.\<close>

lemma cpid_initialize_block_effect:
  assumes blk: "cpid_initialize_block P MAX_PID s w = (rc, s', w')"
  shows "handles w' = handles w \<and> io_objects w' = io_objects w \<and>
         cf_objects w' = cf_objects w \<and>
         digest_destination_buffer s' = digest_destination_buffer s \<and>
         (if md_fetch_succeeds P ''SHA256''
          then sha256 s' = Some (next_addr w) \<and>
               mds w' = (mds w)(next_addr w \<mapsto> ''SHA256'') \<and>
               (if md_ctx_new_succeeds P
                then digest_context s' = Some (Suc (next_addr w)) \<and>
                     md_ctxs w' = (md_ctxs w)
                       (Suc (next_addr w) \<mapsto> \<lparr>ctx_md = None, ctx_data = []\<rparr>)
                else digest_context s' = None \<and> md_ctxs w' = md_ctxs w \<and> rc = RETURN_ERROR)
          else sha256 s' = None \<and> digest_context s' = digest_context s \<and>
               mds w' = mds w \<and> md_ctxs w' = md_ctxs w \<and> rc = RETURN_ERROR)"
proof -
  obtain rc3 v3 where g3: "\<And>w. cpid_get_serial_number P
      (Some (serial_number (digest_input_content s))) MACOS_SERIAL_NUMBER_BUFFER_SIZE w =
      (rc3, Some v3, w)"
    using cpid_get_serial_number_total by metis
  obtain rc4 v4 where g4: "\<And>w. cpid_get_hardware_uuid P
      (Some (hardware_uuid (digest_input_content s))) w = (rc4, Some v4, w)"
    using cpid_get_hardware_uuid_total by metis
  obtain rc5 v5 where g5: "\<And>w. cpid_get_process_creation_time P MAX_PID KERNEL_TASK_PID
      (Some (kernel_task_creation_time (digest_input_content s))) w =
      (rc5, Some v5,
       if KERNEL_TASK_PID > MAX_PID then w else w\<lparr>sysctl_calls := Suc (sysctl_calls w)\<rparr>)"
    using cpid_get_process_creation_time_total by metis
  obtain rc6 v6 where g6: "\<And>w. cpid_get_process_creation_time P MAX_PID LAUNCHD_PID
      (Some (launchd_creation_time (digest_input_content s))) w =
      (rc6, Some v6,
       if LAUNCHD_PID > MAX_PID then w else w\<lparr>sysctl_calls := Suc (sysctl_calls w)\<rparr>)"
    using cpid_get_process_creation_time_total by metis
  from blk show ?thesis
    unfolding cpid_initialize_block_def
    by (auto simp: EVP_MD_fetch_def EVP_MD_CTX_new_def g3 g4 g5 g6 Let_def split: if_splits)
qed

lemma cpid_initialize_block_rc:
  "fst (cpid_initialize_block P MAX_PID s w) = RETURN_SUCCESS \<longleftrightarrow>
     md_fetch_succeeds P ''SHA256'' \<and> md_ctx_new_succeeds P \<and>
     fst (cpid_get_serial_number P (Some b1) MACOS_SERIAL_NUMBER_BUFFER_SIZE w1) = RETURN_SUCCESS \<and>
     fst (cpid_get_hardware_uuid P (Some b2) w2) = RETURN_SUCCESS \<and>
     fst (cpid_get_process_creation_time P MAX_PID KERNEL_TASK_PID (Some t3) w3) = RETURN_SUCCESS \<and>
     fst (cpid_get_process_creation_time P MAX_PID LAUNCHD_PID (Some t4) w4) = RETURN_SUCCESS"
proof -
  obtain rc3 v3 where g3: "\<And>w. cpid_get_serial_number P
      (Some (serial_number (digest_input_content s))) MACOS_SERIAL_NUMBER_BUFFER_SIZE w =
      (rc3, Some v3, w)"
    using cpid_get_serial_number_total by metis
  obtain rc4 v4 where g4: "\<And>w. cpid_get_hardware_uuid P
      (Some (hardware_uuid (digest_input_content s))) w = (rc4, Some v4, w)"
    using cpid_get_hardware_uuid_total by metis
  obtain rc5 v5 where g5: "\<And>w. cpid_get_process_creation_time P MAX_PID KERNEL_TASK_PID
      (Some (kernel_task_creation_time (digest_input_content s))) w =
      (rc5, Some v5,
       if KERNEL_TASK_PID > MAX_PID then w else w\<lparr>sysctl_calls := Suc (sysctl_calls w)\<rparr>)"
    using cpid_get_process_creation_time_total by metis
  obtain rc6 v6 where g6: "\<And>w. cpid_get_process_creation_time P MAX_PID LAUNCHD_PID
      (Some (launchd_creation_time (digest_input_content s))) w =
      (rc6, Some v6,
       if LAUNCHD_PID > MAX_PID then w else w\<lparr>sysctl_calls := Suc (sysctl_calls w)\<rparr>)"
    using cpid_get_process_creation_time_total by metis
  have rcs: "fst (cpid_get_serial_number P (Some b1) MACOS_SERIAL_NUMBER_BUFFER_SIZE w1) = rc3"
    "fst (cpid_get_hardware_uuid P (Some b2) w2) = rc4"
    "fst (cpid_get_process_creation_time P MAX_PID KERNEL_TASK_PID (Some t3) w3) = rc5"
    "fst (cpid_get_process_creation_time P MAX_PID LAUNCHD_PID (Some t4) w4) = rc6"
    using cpid_get_serial_number_rc [of P b1 MACOS_SERIAL_NUMBER_BUFFER_SIZE w1
        "serial_number (digest_input_content s)" w1]
      cpid_get_hardware_uuid_rc [of P b2 w2 "hardware_uuid (digest_input_content s)" w2]
      cpid_get_process_creation_time_rc [of P MAX_PID KERNEL_TASK_PID t3 w3
        "kernel_task_creation_time (digest_input_content s)" w3]
      cpid_get_process_creation_time_rc [of P MAX_PID LAUNCHD_PID t4 w4
        "launchd_creation_time (digest_input_content s)" w4]
    by (simp_all add: g3 g4 g5 g6)
  show ?thesis
    unfolding cpid_initialize_block_def rcs
    by (simp add: EVP_MD_fetch_def EVP_MD_CTX_new_def g3 g4 g5 g6 Let_def)
qed

lemma cpid_finalize_releasable:
  "releasable w a \<Longrightarrow> handles w a = Some s \<Longrightarrow>
     cpid_finalize (Some a) w = Inr (released w a s)"
  by (auto simp: releasable_def released_def cpid_finalize_def EVP_MD_CTX_free_def
      EVP_MD_free_def free_cpid_struct_def split: option.splits)

lemma fun_upd_None_idem: "f a = None \<Longrightarrow> f(a := None) = f"
  by (auto simp: fun_eq_iff)

lemma fresh_worldD:
  "fresh_world w \<Longrightarrow> next_addr w \<le> a \<Longrightarrow>
     handles w a = None \<and> md_ctxs w a = None \<and> mds w a = None"
  by (simp add: fresh_world_def)

lemma cpid_initialize_outcome:
  assumes fresh: "fresh_world w"
  shows "\<exists>h w'. cpid_initialize P MAX_PID w = Inr (h, w') \<and>
     (h = None \<longrightarrow>
        handles w' = handles w \<and> md_ctxs w' = md_ctxs w \<and> mds w' = mds w \<and>
        io_objects w' = io_objects w \<and> cf_objects w' = cf_objects w) \<and>
     (\<forall>a. h = Some a \<longrightarrow> handles w a = None \<and> fully_initialized w' a) \<and>
     (h \<noteq> None \<longleftrightarrow>
        calloc_succeeds P \<and>
        fst (cpid_initialize_block P MAX_PID zero_cpid_struct
          (snd (calloc_cpid_struct P w))) = RETURN_SUCCESS)"
proof (cases "calloc_succeeds P")
  case False
  then show ?thesis
    by (simp add: cpid_initialize_def calloc_cpid_struct_def)
next
  case True
  let ?a = "next_addr w"
  let ?w0 = "w\<lparr>handles := (handles w)(?a \<mapsto> zero_cpid_struct), next_addr := Suc ?a\<rparr>"
  have calloc: "calloc_cpid_struct P w = (Some ?a, ?w0)"
    using True by (simp add: calloc_cpid_struct_def)
  obtain rc s' w1 where blk: "cpid_initialize_block P MAX_PID zero_cpid_struct ?w0 = (rc, s', w1)"
    by (metis prod_cases3)
  note eff = cpid_initialize_block_effect [OF blk]
  let ?w2 = "w1\<lparr>handles := (handles w1)(?a \<mapsto> s')\<rparr>"
  have free0: "handles w ?a = None" "mds w (Suc ?a) = None" "md_ctxs w (Suc (Suc ?a)) = None"
    using fresh_worldD [OF fresh, of ?a] fresh_worldD [OF fresh, of "Suc ?a"]
      fresh_worldD [OF fresh, of "Suc (Suc ?a)"] by simp_all
  show ?thesis
  proof (cases "rc = RETURN_SUCCESS")
    case True
    with eff have ptrs: "sha256 s' = Some (Suc ?a)" "mds w1 (Suc ?a) = Some ''SHA256''"
      "digest_context s' = Some (Suc (Suc ?a))" "md_ctxs w1 (Suc (Suc ?a)) \<noteq> None"
      "length (digest_destination_buffer s') = EVP_MAX_MD_SIZE"
      by (auto simp: zero_cpid_struct_def split: if_splits)
    then have "fully_initialized ?w2 ?a"
      by (simp add: fully_initialized_def)
    moreover have "cpid_initialize P MAX_PID w = Inr (Some ?a, ?w2)"
      using True by (simp add: cpid_initialize_def calloc blk)
    ultimately show ?thesis
      using free0(1) calloc blk True \<open>calloc_succeeds P\<close> by simp
  next
    case False
    have rel: "releasable ?w2 ?a"
      using eff by (auto simp: releasable_def zero_cpid_struct_def split: if_splits)
    have s': "handles ?w2 ?a = Some s'" by simp
    have init: "cpid_initialize P MAX_PID w = Inr (None, released ?w2 ?a s')"
      using False by (simp add: cpid_initialize_def calloc blk cpid_finalize_releasable [OF rel s'])
    have "handles (released ?w2 ?a s') = handles w"
      using eff free0(1) by (simp add: released_def fun_upd_None_idem)
    moreover have "md_ctxs (released ?w2 ?a s') = md_ctxs w"
      using eff free0(3)
      by (auto simp: released_def zero_cpid_struct_def fun_upd_None_idem split: if_splits)
    moreover have "mds (released ?w2 ?a s') = mds w"
      using eff free0(2) by (auto simp: released_def fun_upd_None_idem split: if_splits)
    moreover have "io_objects (released ?w2 ?a s') = io_objects w"
      "cf_objects (released ?w2 ?a s') = cf_objects w"
      using eff by (simp_all add: released_def)
    ultimately show ?thesis
      using init False calloc blk by simp
  qed
qed

lemma bytes16_of_eq_iff:
  "bytes16_of xs = bytes16_of ys \<longleftrightarrow>
     take 16 (xs @ replicate 16 0) = take 16 (ys @ replicate 16 0)"
  by (simp add: bytes16_of_def Abs_bytes16_inject)

text \<open>The example world is what \<^verbatim>\<open>cpid_initialize\<close> makes of the empty world on the example
  platform.\<close>

lemma example_world_unfold:
  "example_world =
     \<lparr>handles = [0 \<mapsto> example_struct],
      md_ctxs = [Suc (Suc 0) \<mapsto> \<lparr>ctx_md = None, ctx_data = []\<rparr>],
      mds = [Suc 0 \<mapsto> ''SHA256''],
      next_addr = Suc (Suc (Suc 0)), io_objects = 0, cf_objects = 0,
      sysctl_calls = Suc (Suc 0)\<rparr>"
  by (simp add: example_world_def numeral_2_eq_2 numeral_3_eq_3)

lemma example_struct_unfold:
  "example_struct =
     \<lparr>digest_context = Some (Suc (Suc 0)), sha256 = Some (Suc 0),
      digest_destination_buffer = replicate 64 0,
      digest_input_content =
        \<lparr>serial_number = bytes16_of [0x41, 0x42, 0x43, 0x31, 0x32, 0x33],
         hardware_uuid = bytes16_of (replicate 16 0x55),
         kernel_task_creation_time = \<lparr>unix_epoch_seconds = 1, micros_offset = 0\<rparr>,
         launchd_creation_time = \<lparr>unix_epoch_seconds = 2, micros_offset = 0\<rparr>,
         process_creation_time = \<lparr>unix_epoch_seconds = 0, micros_offset = 0\<rparr>,
         pid = 0\<rparr>\<rparr>"
  by (simp add: example_struct_def numeral_2_eq_2)

lemma example_serial_number:
  "bytes16_of (0x41 # 0x42 # 0x43 # 0x31 # 0x32 # 0x33 # 0 # replicate 9 0) =
   bytes16_of [0x41, 0x42, 0x43, 0x31, 0x32, 0x33]"
  by (simp add: bytes16_of_eq_iff eval_nat_numeral)

lemma example_initialize:
  "cpid_initialize example_platform 99999 empty_world = Inr (Some 0, example_world)"
  unfolding example_world_unfold example_struct_unfold
  by (simp add: example_serial_number cpid_initialize_def calloc_cpid_struct_def cpid_initialize_block_def
      EVP_MD_fetch_def EVP_MD_CTX_new_def cpid_get_serial_number_def cpid_get_hardware_uuid_def
      cpid_get_process_creation_time_def CFStringGetCString_def
      MACOS_SERIAL_NUMBER_BUFFER_SIZE_def sizeof_uuid_string_t_def KERNEL_TASK_PID_def
      LAUNCHD_PID_def EVP_MAX_MD_SIZE_def
      example_platform_def empty_world_def
      zero_cpid_struct_def zero_process_creation_time_def bytes_of_bytes16_of Let_def)

text \<open>
  C6. From a world whose allocator is sound, \<^verbatim>\<open>cpid_initialize\<close> returns (it has no
  undefined behaviour), and it returns \<^verbatim>\<open>NULL\<close> exactly when a step fails: the allocation
  of the block, the fetch of SHA256, the allocation of the digest context, the lookup of
  the serial number or of the hardware UUID, or the lookup of the creation time of
  process 0 or of process 1. When it returns \<^verbatim>\<open>NULL\<close>, the allocated blocks, digest
  contexts, algorithm objects, IOKit objects and Core Foundation objects are those of
  before the call; a handle it returns is new and fully initialised.
\<close>

theorem cpid_initialize_all_or_nothing:
  assumes fresh: "fresh_world w"
  shows "\<exists>h w'. cpid_initialize P MAX_PID w = Inr (h, w') \<and>
     (h = None \<longrightarrow>
        handles w' = handles w \<and> md_ctxs w' = md_ctxs w \<and> mds w' = mds w \<and>
        io_objects w' = io_objects w \<and> cf_objects w' = cf_objects w) \<and>
     (\<forall>a. h = Some a \<longrightarrow> handles w a = None \<and> fully_initialized w' a) \<and>
     (h = None \<longleftrightarrow>
        \<not> calloc_succeeds P \<or>
        \<not> md_fetch_succeeds P ''SHA256'' \<or>
        \<not> md_ctx_new_succeeds P \<or>
        fst (cpid_get_serial_number P (Some b1) MACOS_SERIAL_NUMBER_BUFFER_SIZE w1)
          \<noteq> RETURN_SUCCESS \<or>
        fst (cpid_get_hardware_uuid P (Some b2) w2) \<noteq> RETURN_SUCCESS \<or>
        fst (cpid_get_process_creation_time P MAX_PID KERNEL_TASK_PID (Some t3) w3)
          \<noteq> RETURN_SUCCESS \<or>
        fst (cpid_get_process_creation_time P MAX_PID LAUNCHD_PID (Some t4) w4)
          \<noteq> RETURN_SUCCESS)"
proof -
  from cpid_initialize_outcome [OF fresh, of P MAX_PID] obtain h w' where
    run: "cpid_initialize P MAX_PID w = Inr (h, w')"
    and none: "h = None \<longrightarrow>
        handles w' = handles w \<and> md_ctxs w' = md_ctxs w \<and> mds w' = mds w \<and>
        io_objects w' = io_objects w \<and> cf_objects w' = cf_objects w"
    and some: "\<forall>a. h = Some a \<longrightarrow> handles w a = None \<and> fully_initialized w' a"
    and iff: "h \<noteq> None \<longleftrightarrow>
        calloc_succeeds P \<and>
        fst (cpid_initialize_block P MAX_PID zero_cpid_struct
          (snd (calloc_cpid_struct P w))) = RETURN_SUCCESS"
    by blast
  from iff
  have "h = None \<longleftrightarrow>
        \<not> calloc_succeeds P \<or>
        \<not> md_fetch_succeeds P ''SHA256'' \<or>
        \<not> md_ctx_new_succeeds P \<or>
        fst (cpid_get_serial_number P (Some b1) MACOS_SERIAL_NUMBER_BUFFER_SIZE w1)
          \<noteq> RETURN_SUCCESS \<or>
        fst (cpid_get_hardware_uuid P (Some b2) w2) \<noteq> RETURN_SUCCESS \<or>
        fst (cpid_get_process_creation_time P MAX_PID KERNEL_TASK_PID (Some t3) w3)
          \<noteq> RETURN_SUCCESS \<or>
        fst (cpid_get_process_creation_time P MAX_PID LAUNCHD_PID (Some t4) w4)
          \<noteq> RETURN_SUCCESS"
    unfolding cpid_initialize_block_rc [where ?b1.0 = b1 and ?w1.0 = w1 and ?b2.0 = b2
        and ?w2.0 = w2 and ?t3.0 = t3 and ?w3.0 = w3 and ?t4.0 = t4 and ?w4.0 = w4]
    by blast
  with run none some show ?thesis by blast
qed

lemma fresh_empty_world: "fresh_world empty_world"
  by (simp add: fresh_world_def empty_world_def)

theorem cpid_initialize_all_or_nothing_witness:
  "fresh_world empty_world \<and>
   fst (cpid_get_hardware_uuid failing_platform (Some (bytes16_of [])) empty_world)
     \<noteq> RETURN_SUCCESS \<and>
   (\<exists>w'. cpid_initialize failing_platform 99999 empty_world = Inr (None, w') \<and>
      handles w' = Map.empty \<and> md_ctxs w' = Map.empty \<and> mds w' = Map.empty \<and>
      io_objects w' = 0 \<and> cf_objects w' = 0) \<and>
   cpid_initialize example_platform 99999 empty_world = Inr (Some 0, example_world) \<and>
   fully_initialized example_world 0"
proof -
  have fails: "fst (cpid_get_hardware_uuid failing_platform (Some (bytes16_of [])) empty_world)
      \<noteq> RETURN_SUCCESS"
    by (simp add: cpid_get_hardware_uuid_def failing_platform_def example_platform_def Let_def)
  from cpid_initialize_all_or_nothing [OF fresh_empty_world, of failing_platform 99999
      _ _ "bytes16_of []" empty_world]
  obtain h w' where run: "cpid_initialize failing_platform 99999 empty_world = Inr (h, w')"
    and none: "h = None \<longrightarrow>
        handles w' = handles empty_world \<and> md_ctxs w' = md_ctxs empty_world \<and>
        mds w' = mds empty_world \<and>
        io_objects w' = io_objects empty_world \<and> cf_objects w' = cf_objects empty_world"
    and iff: "h = None \<longleftrightarrow>
        \<not> calloc_succeeds failing_platform \<or>
        \<not> md_fetch_succeeds failing_platform ''SHA256'' \<or>
        \<not> md_ctx_new_succeeds failing_platform \<or>
        fst (cpid_get_serial_number failing_platform (Some (bytes16_of []))
          MACOS_SERIAL_NUMBER_BUFFER_SIZE empty_world) \<noteq> RETURN_SUCCESS \<or>
        fst (cpid_get_hardware_uuid failing_platform (Some (bytes16_of [])) empty_world)
          \<noteq> RETURN_SUCCESS \<or>
        fst (cpid_get_process_creation_time failing_platform 99999 KERNEL_TASK_PID
          (Some zero_process_creation_time) empty_world) \<noteq> RETURN_SUCCESS \<or>
        fst (cpid_get_process_creation_time failing_platform 99999 LAUNCHD_PID
          (Some zero_process_creation_time) empty_world) \<noteq> RETURN_SUCCESS"
    by blast
  from iff fails have "h = None" by blast
  with run none have "cpid_initialize failing_platform 99999 empty_world = Inr (None, w') \<and>
      handles w' = Map.empty \<and> md_ctxs w' = Map.empty \<and> mds w' = Map.empty \<and>
      io_objects w' = 0 \<and> cf_objects w' = 0"
    by (simp add: empty_world_def)
  with fails fresh_empty_world example_initialize fully_initialized_example_world
  show ?thesis by blast
qed

text \<open>
  C7, as the code has it. \<^verbatim>\<open>cpid_finalize\<close> returns on the null handle, leaving the world
  as it was, however often it is called; and it returns on every allocated handle, fully
  or partially initialised, whose OpenSSL pointers are null or valid: it then has released
  the digest context if there was one, the algorithm object if there was one, and the
  block, and nothing else. The handle is passed by value, so the caller's copy still holds
  the address of the released block.
\<close>

theorem cpid_finalize_safe:
  "cpid_finalize None w = Inr w \<and>
   (releasable w a \<and> handles w a = Some s \<longrightarrow>
      cpid_finalize (Some a) w = Inr (released w a s) \<and>
      handles (released w a s) a = None \<and>
      (\<forall>b. b \<noteq> a \<longrightarrow> handles (released w a s) b = handles w b) \<and>
      (\<forall>c. Some c \<noteq> digest_context s \<longrightarrow> md_ctxs (released w a s) c = md_ctxs w c) \<and>
      (\<forall>c. Some c = digest_context s \<longrightarrow> md_ctxs (released w a s) c = None) \<and>
      (\<forall>m. Some m \<noteq> sha256 s \<longrightarrow> mds (released w a s) m = mds w m) \<and>
      (\<forall>m. Some m = sha256 s \<longrightarrow> mds (released w a s) m = None) \<and>
      cpid_finalize None (released w a s) = Inr (released w a s))"
proof (intro conjI impI)
  show "cpid_finalize None w = Inr w"
    by (simp add: cpid_finalize_def)
next
  assume "releasable w a \<and> handles w a = Some s"
  then show "cpid_finalize (Some a) w = Inr (released w a s)"
    by (simp add: cpid_finalize_releasable)
next
  show "handles (released w a s) a = None"
    and "\<forall>b. b \<noteq> a \<longrightarrow> handles (released w a s) b = handles w b"
    by (simp_all add: released_def)
next
  show "\<forall>c. Some c \<noteq> digest_context s \<longrightarrow> md_ctxs (released w a s) c = md_ctxs w c"
    and "\<forall>c. Some c = digest_context s \<longrightarrow> md_ctxs (released w a s) c = None"
    by (auto simp: released_def split: option.splits)
next
  show "\<forall>m. Some m \<noteq> sha256 s \<longrightarrow> mds (released w a s) m = mds w m"
    and "\<forall>m. Some m = sha256 s \<longrightarrow> mds (released w a s) m = None"
    by (auto simp: released_def split: option.splits)
next
  show "cpid_finalize None (released w a s) = Inr (released w a s)"
    by (simp add: cpid_finalize_def)
qed

theorem cpid_finalize_safe_witness:
  "releasable partial_world 0 \<and>
   handles partial_world 0 = Some (zero_cpid_struct\<lparr>sha256 := Some 1\<rparr>) \<and>
   cpid_finalize (Some 0) partial_world =
     Inr (partial_world\<lparr>handles := Map.empty, mds := Map.empty\<rparr>) \<and>
   cpid_finalize None (partial_world\<lparr>handles := Map.empty, mds := Map.empty\<rparr>) =
     Inr (partial_world\<lparr>handles := Map.empty, mds := Map.empty\<rparr>)"
proof -
  have rel: "releasable partial_world 0"
    and s: "handles partial_world 0 = Some (zero_cpid_struct\<lparr>sha256 := Some 1\<rparr>)"
    by (simp_all add: releasable_def partial_world_def zero_cpid_struct_def)
  have after: "released partial_world 0 (zero_cpid_struct\<lparr>sha256 := Some 1\<rparr>) =
      partial_world\<lparr>handles := Map.empty, mds := Map.empty\<rparr>"
    by (simp add: released_def partial_world_def zero_cpid_struct_def)
  from cpid_finalize_safe [of partial_world 0 "zero_cpid_struct\<lparr>sha256 := Some 1\<rparr>"] rel s
  show ?thesis
    unfolding after by simp
qed

text \<open>
  C7 as the spec states it fails: a second \<^verbatim>\<open>cpid_finalize\<close> with the same handle reads the
  block the first call has freed.
\<close>

theorem cpid_finalize_twice_counterexample:
  "cpid_initialize example_platform 99999 empty_world = Inr (Some 0, example_world) \<and>
   cpid_finalize (Some 0) example_world = Inr (released example_world 0 example_struct) \<and>
   cpid_finalize (Some 0) (released example_world 0 example_struct) = Inl InvalidPointer"
proof -
  have "releasable example_world 0"
    by (simp add: releasable_def example_world_def example_struct_def)
  then have first: "cpid_finalize (Some 0) example_world =
      Inr (released example_world 0 example_struct)"
    using handles_example_world by (rule cpid_finalize_releasable)
  have second: "cpid_finalize (Some 0) (released example_world 0 example_struct) =
      Inl InvalidPointer"
    by (simp add: cpid_finalize_def released_def)
  from example_initialize first second show ?thesis by simp
qed

end
